theory Spec2Isabelle
  imports Complex_Main "HOL-Library.Signed_Division"
begin

section \<open>EEVEE light probes: registry, filters and the incremental scheduler\<close>

text \<open>
  A shallow embedding of \<^verbatim>\<open>source/blender/draw/engines/eevee/eevee_lightprobes.c\<close>.

  Conventions of the model.
  \<^item> An \<^verbatim>\<open>Object *\<close> is an address (a natural number); \<^verbatim>\<open>NULL\<close> in a reference array is
    \<open>None\<close>. The objects and their per-object engine data live in two stores of the state.
  \<^item> A C \<^verbatim>\<open>int\<close> that holds a resolution, a cell number or a cell count is an \<open>int\<close> in
    the 32-bit range: every addition and multiplication of such values is followed by
    \<open>wrap32\<close>, the two's complement wrap-around, and the division is C's truncating
    division (\<open>sdiv\<close>, \<open>smod\<close>), which traps on a zero divisor and on an unrepresentable
    quotient; a trap is a value of the type \<open>error\<close>. The probe counts and the bounce
    counter, which start at 0 or 1, are incremented once per registered object or per
    bounce and are bounded by the capacity test, are \<open>nat\<close>.
  \<^item> Calls into the draw manager that render something, and the diagnostic \<^verbatim>\<open>printf\<close>,
    are recorded in order in the list \<open>drw_log\<close> of the state.
  \<^item> The two reference arrays are functions from the slot number; their extents, like
    the constants \<^verbatim>\<open>MAX_PROBE\<close> and \<^verbatim>\<open>MAX_GRID\<close>, are declared in
    \<^verbatim>\<open>eevee_private.h\<close>, which is not part of the source file, so the two constants are
    parameters \<open>max_probe\<close> and \<open>max_grid\<close> of the functions that use them.
  \<^item> A C \<^verbatim>\<open>float\<close> is a real number that is a binary32 value: every float operation,
    every float literal and every conversion from \<^verbatim>\<open>int\<close> is the exact result followed
    by \<open>binary32_round\<close>, rounding to nearest with ties to even.
\<close>

subsection \<open>Data\<close>

type_synonym ob_ptr = nat
type_synonym texture = nat

text \<open>\<^verbatim>\<open>probe->type\<close>: the two kinds the file names, and any other value of the field.\<close>

datatype lightprobe_type =
  LIGHTPROBE_TYPE_CUBE | LIGHTPROBE_TYPE_GRID | LIGHTPROBE_TYPE_OTHER

record LightProbe =
  probe_type :: lightprobe_type
  grid_resolution_x :: int
  grid_resolution_y :: int
  grid_resolution_z :: int

text \<open>
  The fields of \<^verbatim>\<open>Object\<close> read here: \<^verbatim>\<open>ob->data\<close> and the test
  \<^verbatim>\<open>(ob->deg_update_flag & DEG_RUNTIME_DATA_UPDATE) != 0\<close>.
\<close>

record Object =
  data :: LightProbe
  deg_runtime_data_update :: bool

record EEVEE_LightProbeEngineData =
  need_update :: bool
  ready_to_shade :: bool
  updated_cells :: int
  num_cell :: int
  probe_id :: nat

text \<open>\<^verbatim>\<open>EEVEE_LightGrid\<close>: the integer fields (\<open>resolution\<close> is \<^verbatim>\<open>resolution[0..2]\<close>).\<close>

record EEVEE_LightGrid =
  offset :: int
  resolution :: "int \<times> int \<times> int"

text \<open>
  Where a capture is taken from: the position that \<^verbatim>\<open>lightprobe_cell_location_get\<close>
  computes for a local cell of the grid in a slot, or \<^verbatim>\<open>ob->obmat[3]\<close>.
\<close>

datatype capture_pos =
  Cell_pos nat "real \<times> real \<times> real"
| Object_pos ob_ptr

datatype drw_event =
  Ev_world_pass
| Ev_scene_capture capture_pos ob_ptr
| Ev_glossy_pass nat nat
| Ev_diffuse_pass "texture option" int
| Ev_request_redraw
| Ev_printf string

text \<open>The traps of the integer division (\<^verbatim>\<open>SIGFPE\<close>).\<close>

datatype error = Division_by_zero | Division_overflow

text \<open>
  The state: \<^verbatim>\<open>e_data\<close> (\<open>update_world\<close>, \<open>world_ready_to_shade\<close>), the fields of
  \<^verbatim>\<open>EEVEE_LightProbesInfo\<close> (\<open>num_cube\<close> to \<open>layer\<close>), the textures of
  \<^verbatim>\<open>EEVEE_SceneLayerData\<close>, the two stores, a counter for fresh textures and the log.
  \<open>update_flag_cube\<close> is the bit \<^verbatim>\<open>PROBE_UPDATE_CUBE\<close> of \<^verbatim>\<open>pinfo->update_flag\<close>.
\<close>

record eevee_state =
  update_world :: bool
  world_ready_to_shade :: bool
  num_cube :: nat
  num_grid :: nat
  cache_num_cube :: nat
  num_render_cube :: nat
  num_render_grid :: nat
  updated_bounce :: nat
  update_flag_cube :: bool
  probes_cube_ref :: "nat \<Rightarrow> ob_ptr option"
  probes_grid_ref :: "nat \<Rightarrow> ob_ptr option"
  grid_data :: "nat \<Rightarrow> EEVEE_LightGrid"
  specular_toggle :: bool
  layer :: nat
  probe_pool :: "texture option"
  irradiance_pool :: "texture option"
  irradiance_rt :: "texture option"
  obs :: "ob_ptr \<Rightarrow> Object"
  ped :: "ob_ptr \<Rightarrow> EEVEE_LightProbeEngineData"
  next_texture :: texture
  drw_log :: "drw_event list"

text \<open>
  Modelled from the spec: \<^verbatim>\<open>EEVEE_lightprobe_data_get\<close> is not part of the source file;
  it returns the bake state attached to the object, here the entry of the store \<open>ped\<close>.
\<close>

definition EEVEE_lightprobe_data_get :: "eevee_state \<Rightarrow> ob_ptr \<Rightarrow> EEVEE_LightProbeEngineData" where
  "EEVEE_lightprobe_data_get s ob = ped s ob"

definition ped_modify ::
  "ob_ptr \<Rightarrow> (EEVEE_LightProbeEngineData \<Rightarrow> EEVEE_LightProbeEngineData) \<Rightarrow> eevee_state \<Rightarrow> eevee_state" where
  "ped_modify ob f s = s\<lparr>ped := (ped s)(ob := f (ped s ob))\<rparr>"

subsection \<open>C arithmetic\<close>

text \<open>
  \<open>wrap32 k\<close> is the \<^verbatim>\<open>int\<close> that a 32-bit two's complement addition or multiplication
  with the exact result \<open>k\<close> leaves: \<open>k\<close> modulo \<open>2 ^ 32\<close>, between \<open>- (2 ^ 31)\<close> and
  \<open>2 ^ 31 - 1\<close>.
\<close>

definition wrap32 :: "int \<Rightarrow> int" where
  "wrap32 k = (k + 2 ^ 31) mod 2 ^ 32 - 2 ^ 31"

text \<open>
  \<^verbatim>\<open>a / b\<close> and \<^verbatim>\<open>a % b\<close> on \<^verbatim>\<open>int\<close>: the quotient truncated towards zero and its
  remainder. Both trap when the divisor is zero, and when the quotient
  \<^verbatim>\<open>INT_MIN / -1\<close> is not representable.
\<close>

definition int_div :: "int \<Rightarrow> int \<Rightarrow> error + int" where
  "int_div a b =
     (if b = 0 then Inl Division_by_zero
      else if a = - (2 ^ 31) \<and> b = - 1 then Inl Division_overflow
      else Inr (a sdiv b))"

definition int_mod :: "int \<Rightarrow> int \<Rightarrow> error + int" where
  "int_mod a b =
     (if b = 0 then Inl Division_by_zero
      else if a = - (2 ^ 31) \<and> b = - 1 then Inl Division_overflow
      else Inr (a smod b))"

text \<open>The nearest integer, a tie going to the even one.\<close>

definition round_half_even :: "real \<Rightarrow> int" where
  "round_half_even q =
     (let f = \<lfloor>q\<rfloor> in
      if q - of_int f < 1 / 2 then f
      else if q - of_int f > 1 / 2 then f + 1
      else if even f then f else f + 1)"

text \<open>
  The binary32 number nearest to \<open>x\<close>: a significand of 24 bits at the binary exponent
  \<open>e\<close> of \<open>x\<close>, so a multiple of \<open>2 powi (e - 23)\<close>, with the exponent of the subnormal
  numbers below \<open>2 powi (- 126)\<close>. The largest operand that this file rounds is an
  \<^verbatim>\<open>int\<close>, far below \<open>2 ^ 128\<close>, from where on C rounds to an infinity.
\<close>

definition binary32_round :: "real \<Rightarrow> real" where
  "binary32_round x =
     (if x = 0 then 0
      else let e = max \<lfloor>log 2 \<bar>x\<bar>\<rfloor> (- 126);
               ulp = 2 powi (e - 23)
           in of_int (round_half_even (x / ulp)) * ulp)"

text \<open>The conversion \<^verbatim>\<open>(float)k\<close> of an \<^verbatim>\<open>int\<close>, and the float operations used below.\<close>

definition float_of_int :: "int \<Rightarrow> real" where
  "float_of_int k = binary32_round (of_int k)"

definition float_sub :: "real \<Rightarrow> real \<Rightarrow> real" where
  "float_sub a b = binary32_round (a - b)"

definition float_mul :: "real \<Rightarrow> real \<Rightarrow> real" where
  "float_mul a b = binary32_round (a * b)"

text \<open>The divisor of the one float division of this file is the constant 6.\<close>

definition float_div :: "real \<Rightarrow> real \<Rightarrow> real" where
  "float_div a b = binary32_round (a / b)"

subsection \<open>Scanning a reference array\<close>

text \<open>
  \<^verbatim>\<open>for (int i = 1; (ob = refs[i]) && (i < MAX); i++)\<close>: the slots visited from \<open>i\<close> on,
  with the object found in each. The scan stops at the first empty slot or at the bound.
\<close>

function scan_refs :: "nat \<Rightarrow> (nat \<Rightarrow> ob_ptr option) \<Rightarrow> nat \<Rightarrow> (nat \<times> ob_ptr) list" where
  "scan_refs max_n refs i =
     (case refs i of
        None \<Rightarrow> []
      | Some ob \<Rightarrow> if i < max_n then (i, ob) # scan_refs max_n refs (Suc i) else [])"
  by pat_completeness auto
termination
  by (relation "measure (\<lambda>(max_n, refs, i). max_n - i)") auto

declare scan_refs.simps [simp del]

text \<open>The first visited slot whose object needs an update (the loops that return from inside).\<close>

definition first_dirty :: "eevee_state \<Rightarrow> (nat \<times> ob_ptr) list \<Rightarrow> (nat \<times> ob_ptr) option" where
  "first_dirty s sc = find (\<lambda>(i, ob). need_update (EEVEE_lightprobe_data_get s ob)) sc"

text \<open>A loop whose body only rewrites the bake state of the visited object.\<close>

definition tag_all ::
  "(EEVEE_LightProbeEngineData \<Rightarrow> EEVEE_LightProbeEngineData) \<Rightarrow> (nat \<times> ob_ptr) list \<Rightarrow> eevee_state \<Rightarrow> eevee_state" where
  "tag_all f sc s = fold (\<lambda>(i, ob). ped_modify ob f) sc s"

subsection \<open>Draw-manager calls and the filters\<close>

definition PROBE_OCTAHEDRON_SIZE :: nat where
  "PROBE_OCTAHEDRON_SIZE = 1024"

text \<open>\<^verbatim>\<open>(int)floorf(log2f(PROBE_OCTAHEDRON_SIZE))\<close>\<close>

definition maxlevel :: int where
  "maxlevel = \<lfloor>log 2 (real PROBE_OCTAHEDRON_SIZE)\<rfloor>"

definition min_lod_level :: int where
  "min_lod_level = 3"

definition DRW_viewport_request_redraw :: "eevee_state \<Rightarrow> eevee_state" where
  "DRW_viewport_request_redraw s = s\<lparr>drw_log := drw_log s @ [Ev_request_redraw]\<rparr>"

text \<open>\<^verbatim>\<open>SWAP(GPUTexture *, sldata->irradiance_pool, sldata->irradiance_rt)\<close>\<close>

definition SWAP_irradiance :: "eevee_state \<Rightarrow> eevee_state" where
  "SWAP_irradiance s = s\<lparr>irradiance_pool := irradiance_rt s, irradiance_rt := irradiance_pool s\<rparr>"

definition render_world_to_probe :: "eevee_state \<Rightarrow> eevee_state" where
  "render_world_to_probe s = s\<lparr>layer := 0, drw_log := drw_log s @ [Ev_world_pass]\<rparr>"

text \<open>
  The six cube faces are one \<open>Ev_scene_capture\<close>; the clip range is that of the probe of
  the object named in the event. Specular lighting is off during the call and on after.
\<close>

definition render_scene_to_probe :: "capture_pos \<Rightarrow> ob_ptr \<Rightarrow> eevee_state \<Rightarrow> eevee_state" where
  "render_scene_to_probe pos ob s =
     s\<lparr>specular_toggle := True, layer := 0, drw_log := drw_log s @ [Ev_scene_capture pos ob]\<rparr>"

text \<open>
  The loop of \<^verbatim>\<open>glossy_filter_probe\<close> draws the glossy pass once for every level
  \<^verbatim>\<open>0 <= i < maxlevel - min_lod_level\<close>, into the layer \<open>probe_idx\<close>. The values bound
  for the pass of level \<open>i\<close> are \<open>glossy_roughness\<close> and \<open>glossy_samples_ct\<close> below.
\<close>

definition glossy_filter_probe :: "nat \<Rightarrow> eevee_state \<Rightarrow> eevee_state" where
  "glossy_filter_probe probe_idx s =
     s\<lparr>layer := (if 0 < maxlevel - min_lod_level then probe_idx else layer s),
       drw_log := drw_log s @ map (Ev_glossy_pass probe_idx) [0..<nat (maxlevel - min_lod_level)]\<rparr>"

text \<open>\<^verbatim>\<open>CLAMP(a, b, c)\<close>: \<^verbatim>\<open>if (a < b) a = b; else if (a > c) a = c;\<close>\<close>

definition CLAMP :: "real \<Rightarrow> real \<Rightarrow> real \<Rightarrow> real" where
  "CLAMP a b c = (if a < b then b else if a > c then c else a)"

text \<open>
  Lines 584 to 587: \<^verbatim>\<open>(float)i / ((float)maxlevel - 4.0f)\<close>, squared twice, clamped
  between the literals \<^verbatim>\<open>1e-8f\<close> and \<^verbatim>\<open>0.99999f\<close>.
\<close>

definition glossy_roughness :: "nat \<Rightarrow> real" where
  "glossy_roughness i =
     (let r0 = float_div (float_of_int (int i))
                 (float_sub (float_of_int maxlevel) (binary32_round 4));
          r1 = float_mul r0 r0;
          r2 = float_mul r1 r1
      in CLAMP r2 (binary32_round (1 / 10 ^ 8)) (binary32_round (99999 / 100000)))"

text \<open>
  Modelled from the spec: the roughness formula
  \<^verbatim>\<open>clamp(((i / (maxLevel - 4))^2)^2, 1e-8, 0.99999)\<close>, over the real numbers, and the same
  formula with every operation and literal in single precision.
\<close>

definition spec_roughness :: "nat \<Rightarrow> real" where
  "spec_roughness i =
     max (1 / 10 ^ 8) (min (99999 / 100000) (((real i / (of_int maxlevel - 4))\<^sup>2)\<^sup>2))"

definition spec_roughness_binary32 :: "nat \<Rightarrow> real" where
  "spec_roughness_binary32 i =
     max (binary32_round (1 / 10 ^ 8)) (min (binary32_round (99999 / 100000))
       (binary32_round ((binary32_round ((binary32_round
          (binary32_round (real i)
             / binary32_round (binary32_round (of_int maxlevel) - binary32_round 4)))\<^sup>2))\<^sup>2)))"

text \<open>The \<^verbatim>\<open>switch (i)\<close> of lines 590 to 596.\<close>

definition glossy_samples_ct :: "nat \<Rightarrow> real" where
  "glossy_samples_ct i =
     (if i = 0 then 1 else if i = 1 then 16 else if i = 2 then 32 else if i = 3 then 64 else 128)"

text \<open>
  \<^verbatim>\<open>diffuse_filter_probe\<close> draws the diffuse pass into \<^verbatim>\<open>sldata->irradiance_rt\<close>, in
  the footprint of the cell \<open>offs\<close>.
\<close>

definition diffuse_filter_probe :: "int \<Rightarrow> eevee_state \<Rightarrow> eevee_state" where
  "diffuse_filter_probe offs s = s\<lparr>drw_log := drw_log s @ [Ev_diffuse_pass (irradiance_rt s) offs]\<rparr>"

text \<open>
  \<^verbatim>\<open>lightprobe_cell_location_get\<close>, lines 767 to 769: the three floats
  \<^verbatim>\<open>local_cell[0..2]\<close>, computed in the order of the source (\<open>[2]\<close>, \<open>[1]\<close>, \<open>[0]\<close>), each
  an \<^verbatim>\<open>int\<close> expression converted to \<^verbatim>\<open>float\<close>. The divisor of line 769 is the 32-bit
  product of two resolutions. The position is the affine combination of the grid's
  vectors with these three numbers.
\<close>

definition lightprobe_cell_location_get ::
  "EEVEE_LightGrid \<Rightarrow> int \<Rightarrow> error + (real \<times> real \<times> real)" where
  "lightprobe_cell_location_get egrid cell_idx =
     (case resolution egrid of (res0, res1, res2) \<Rightarrow>
        (case int_mod cell_idx res2 of
           Inl e \<Rightarrow> Inl e
         | Inr m2 \<Rightarrow>
        let local_cell2 = float_of_int m2 in
        (case int_div cell_idx res2 of
           Inl e \<Rightarrow> Inl e
         | Inr d2 \<Rightarrow>
        (case int_mod d2 res1 of
           Inl e \<Rightarrow> Inl e
         | Inr m1 \<Rightarrow>
        let local_cell1 = float_of_int m1 in
        (case int_div cell_idx (wrap32 (res2 * res1)) of
           Inl e \<Rightarrow> Inl e
         | Inr d0 \<Rightarrow>
        let local_cell0 = float_of_int d0 in
        Inr (local_cell0, local_cell1, local_cell2))))))"

text \<open>
  Modelled from the spec: the flattened cell index \<open>f(x,y,z) = z + resZ*(y + resY*x)\<close> of the
  consumer, whose shader is not part of the source file.
\<close>

definition spec_flat_index :: "int \<times> int \<times> int \<Rightarrow> int \<times> int \<times> int \<Rightarrow> int" where
  "spec_flat_index res c =
     (case res of (resX, resY, resZ) \<Rightarrow> case c of (x, y, z) \<Rightarrow> z + resZ * (y + resY * x))"

subsection \<open>The registry: \<^verbatim>\<open>cache_init\<close>, \<^verbatim>\<open>cache_add\<close>, \<^verbatim>\<open>cache_finish\<close>\<close>

text \<open>
  \<^verbatim>\<open>EEVEE_lightprobes_cache_init\<close>: the counts and the reference arrays, and the world
  flag. The argument is \<open>None\<close> when the scene has no world, otherwise
  \<^verbatim>\<open>wo->update_flag != 0\<close>.
\<close>

definition EEVEE_lightprobes_cache_init :: "bool option \<Rightarrow> eevee_state \<Rightarrow> eevee_state" where
  "EEVEE_lightprobes_cache_init wo s =
     (let s1 = s\<lparr>num_cube := 1, num_grid := 1,
                 probes_cube_ref := (\<lambda>i. None), probes_grid_ref := (\<lambda>i. None)\<rparr>
      in case wo of None \<Rightarrow> s1 | Some flag \<Rightarrow> s1\<lparr>update_world := flag\<rparr>)"

definition too_much_probes :: string where
  "too_much_probes = ''Too much probes in the scene !!!'' @ [CHR 0x0A]"

text \<open>Lines 339 to 342 and 346 to 349: the same four assignments.\<close>

definition tag_object_dirty :: "ob_ptr \<Rightarrow> eevee_state \<Rightarrow> eevee_state" where
  "tag_object_dirty ob s =
     (ped_modify ob (\<lambda>p. p\<lparr>need_update := True, updated_cells := 0, probe_id := 0\<rparr>) s)
       \<lparr>updated_bounce := 0\<rparr>"

definition EEVEE_lightprobes_cache_add :: "nat \<Rightarrow> ob_ptr \<Rightarrow> eevee_state \<Rightarrow> eevee_state" where
  "EEVEE_lightprobes_cache_add max_probe ob s =
     (let probe = data (obs s ob) in
      if (probe_type probe = LIGHTPROBE_TYPE_CUBE \<and> num_cube s \<ge> max_probe) \<or>
         (probe_type probe = LIGHTPROBE_TYPE_GRID \<and> num_grid s \<ge> max_probe)
      then s\<lparr>drw_log := drw_log s @ [Ev_printf too_much_probes]\<rparr>
      else
        let s1 = ped_modify ob (\<lambda>p. p\<lparr>num_cell :=
                   wrap32 (wrap32 (grid_resolution_x probe * grid_resolution_y probe)
                             * grid_resolution_z probe)\<rparr>) s;
            s2 = (if deg_runtime_data_update (obs s1 ob) then tag_object_dirty ob s1 else s1);
            s3 = (if update_world s2 then tag_object_dirty ob s2 else s2)
        in if probe_type probe = LIGHTPROBE_TYPE_CUBE
           then s3\<lparr>probes_cube_ref := (probes_cube_ref s3)(num_cube s3 := Some ob),
                   num_cube := num_cube s3 + 1\<rparr>
           else s3\<lparr>probes_grid_ref := (probes_grid_ref s3)(num_grid s3 := Some ob),
                   num_grid := num_grid s3 + 1\<rparr>)"

text \<open>
  \<^verbatim>\<open>EEVEE_lightprobes_updates\<close>, second loop: the offset and the resolution of every
  scanned grid. (The first loop and the rest of the second write matrices and vectors
  of the parameter tables and the debug display.)
\<close>

fun update_grids :: "(nat \<times> ob_ptr) list \<Rightarrow> int \<Rightarrow> eevee_state \<Rightarrow> eevee_state" where
  "update_grids [] offs s = s"
| "update_grids ((i, ob) # rest) offs s =
     (let probe = data (obs s ob);
          egrid = \<lparr>offset = offs,
                   resolution = (grid_resolution_x probe, grid_resolution_y probe, grid_resolution_z probe)\<rparr>
      in update_grids rest (wrap32 (offs + num_cell (EEVEE_lightprobe_data_get s ob)))
           (s\<lparr>grid_data := (grid_data s)(i := egrid)\<rparr>))"

definition EEVEE_lightprobes_updates :: "nat \<Rightarrow> eevee_state \<Rightarrow> eevee_state" where
  "EEVEE_lightprobes_updates max_grid s =
     update_grids (scan_refs max_grid (probes_grid_ref s) 1) 1 s"

text \<open>A texture creation returns a texture that did not exist before.\<close>

definition DRW_texture_create :: "eevee_state \<Rightarrow> texture \<times> eevee_state" where
  "DRW_texture_create s = (next_texture s, s\<lparr>next_texture := next_texture s + 1\<rparr>)"

text \<open>Lines 481 to 505: the reflection atlas.\<close>

definition cache_finish_probe_pool :: "nat \<Rightarrow> eevee_state \<Rightarrow> eevee_state" where
  "cache_finish_probe_pool max_probe s =
     (let s1 = (if num_cube s \<noteq> cache_num_cube s then s\<lparr>probe_pool := None\<rparr> else s) in
      if probe_pool s1 = None then
        (case DRW_texture_create s1 of (tex, s2) \<Rightarrow>
           let s3 = s2\<lparr>probe_pool := Some tex,
                       update_world := True,
                       world_ready_to_shade := False,
                       num_render_cube := 0,
                       update_flag_cube := True,
                       cache_num_cube := num_cube s2\<rparr>
           in tag_all (\<lambda>p. p\<lparr>need_update := True, ready_to_shade := False, probe_id := 0\<rparr>)
                (scan_refs max_probe (probes_cube_ref s3) 1) s3)
      else s1)"

text \<open>Lines 521 to 528 and 533 to 540: the body run when an irradiance texture is created.\<close>

definition reset_grids :: "nat \<Rightarrow> eevee_state \<Rightarrow> eevee_state" where
  "reset_grids max_probe s =
     (let s1 = s\<lparr>num_render_grid := 0, updated_bounce := 0\<rparr>
      in tag_all (\<lambda>p. p\<lparr>need_update := True, updated_cells := 0\<rparr>)
           (scan_refs max_probe (probes_grid_ref s1) 1) s1)"

definition cache_finish_irradiance_pool :: "nat \<Rightarrow> eevee_state \<Rightarrow> eevee_state" where
  "cache_finish_irradiance_pool max_probe s =
     (if irradiance_pool s = None then
        (case DRW_texture_create s of (tex, s1) \<Rightarrow>
           reset_grids max_probe (s1\<lparr>irradiance_pool := Some tex\<rparr>))
      else s)"

definition cache_finish_irradiance_rt :: "nat \<Rightarrow> eevee_state \<Rightarrow> eevee_state" where
  "cache_finish_irradiance_rt max_probe s =
     (if irradiance_rt s = None then
        (case DRW_texture_create s of (tex, s1) \<Rightarrow>
           reset_grids max_probe (s1\<lparr>irradiance_rt := Some tex\<rparr>))
      else s)"

definition EEVEE_lightprobes_cache_finish :: "nat \<Rightarrow> nat \<Rightarrow> eevee_state \<Rightarrow> eevee_state" where
  "EEVEE_lightprobes_cache_finish max_probe max_grid s =
     EEVEE_lightprobes_updates max_grid
       (cache_finish_irradiance_rt max_probe
         (cache_finish_irradiance_pool max_probe
           (cache_finish_probe_pool max_probe s)))"

subsection \<open>The scheduler: \<^verbatim>\<open>EEVEE_lightprobes_refresh\<close>\<close>

text \<open>
  The draw context: \<^verbatim>\<open>draw_ctx->evil_C != NULL\<close>,
  \<^verbatim>\<open>(rv3d->rflag & RV3D_NAVIGATING) != 0\<close> and
  \<^verbatim>\<open>ED_screen_animation_no_scrub(wm) != NULL\<close>.
\<close>

record DRWContextState =
  evil_C :: bool
  navigating :: bool
  animation_no_scrub :: bool

definition max_bounce :: nat where
  "max_bounce = 3"

text \<open>Lines 789 to 806.\<close>

definition refresh_world :: "eevee_state \<Rightarrow> eevee_state" where
  "refresh_world s =
     (let s1 = render_world_to_probe s;
          s2 = glossy_filter_probe 0 s1;
          s3 = diffuse_filter_probe 0 s2;
          s4 = SWAP_irradiance s3;
          s5 = diffuse_filter_probe 0 s4;
          s6 = s5\<lparr>update_world := False\<rparr>;
          s7 = (if \<not> world_ready_to_shade s6
                then s6\<lparr>world_ready_to_shade := True, num_render_cube := 1, num_render_grid := 1\<rparr>
                else s6)
      in DRW_viewport_request_redraw s7)"

text \<open>Lines 827 to 863: the body run for the first grid that needs an update.\<close>

definition refresh_grid_cell :: "nat \<Rightarrow> ob_ptr \<Rightarrow> eevee_state \<Rightarrow> error + eevee_state" where
  "refresh_grid_cell i ob s =
     (let egrid = grid_data s i;
          cell_id = updated_cells (EEVEE_lightprobe_data_get s ob);
          s1 = SWAP_irradiance s;
          tmp_num_render_grid = num_render_grid s1;
          tmp_num_render_cube = num_render_cube s1;
          s2 = s1\<lparr>num_render_cube := 0\<rparr>;
          s3 = (if updated_bounce s2 = 0 then s2\<lparr>num_render_grid := 0\<rparr> else s2)
      in case lightprobe_cell_location_get egrid cell_id of
           Inl e \<Rightarrow> Inl e
         | Inr local_cell \<Rightarrow>
             let s4 = render_scene_to_probe (Cell_pos i local_cell) ob s3;
                 s5 = diffuse_filter_probe (wrap32 (offset egrid + cell_id)) s4;
                 s6 = s5\<lparr>num_render_grid := tmp_num_render_grid,
                         num_render_cube := tmp_num_render_cube\<rparr>;
                 s7 = SWAP_irradiance s6;
                 s8 = ped_modify ob (\<lambda>p. p\<lparr>updated_cells := wrap32 (updated_cells p + 1)\<rparr>) s7;
                 s9 = (if updated_cells (EEVEE_lightprobe_data_get s8 ob)
                          \<ge> num_cell (EEVEE_lightprobe_data_get s8 ob)
                       then ped_modify ob (\<lambda>p. p\<lparr>need_update := False\<rparr>) s8 else s8)
             in Inr (DRW_viewport_request_redraw s9))"

text \<open>Lines 881 to 903: the cube probes.\<close>

definition refresh_cube :: "nat \<Rightarrow> ob_ptr \<Rightarrow> eevee_state \<Rightarrow> eevee_state" where
  "refresh_cube i ob s =
     (let s1 = render_scene_to_probe (Object_pos ob) ob s;
          s2 = glossy_filter_probe i s1;
          s3 = ped_modify ob (\<lambda>p. p\<lparr>need_update := False, probe_id := i\<rparr>) s2;
          s4 = (if \<not> ready_to_shade (EEVEE_lightprobe_data_get s3 ob)
                then ped_modify ob (\<lambda>p. p\<lparr>ready_to_shade := True\<rparr>)
                       (s3\<lparr>num_render_cube := num_render_cube s3 + 1\<rparr>)
                else s3)
      in DRW_viewport_request_redraw s4)"

definition refresh_cubes :: "nat \<Rightarrow> eevee_state \<Rightarrow> eevee_state" where
  "refresh_cubes max_probe s =
     (case first_dirty s (scan_refs max_probe (probes_cube_ref s) 1) of
        Some (i, ob) \<Rightarrow> refresh_cube i ob s
      | None \<Rightarrow> s)"

text \<open>
  Lines 867 to 878: no scanned grid needs an update, so the bounce is complete; unless it
  was the last one, every scanned grid is tagged again for the next bounce.
\<close>

definition advance_bounce :: "nat \<Rightarrow> eevee_state \<Rightarrow> eevee_state" where
  "advance_bounce max_grid s =
     (let s1 = s\<lparr>updated_bounce := updated_bounce s + 1, num_render_grid := num_grid s\<rparr>
      in if updated_bounce s1 < max_bounce
         then SWAP_irradiance
                (tag_all (\<lambda>p. p\<lparr>need_update := True, updated_cells := 0\<rparr>)
                   (scan_refs max_grid (probes_grid_ref s1) 1) s1)
         else s1)"

text \<open>
  Lines 820 to 903: the \<^verbatim>\<open>while\<close> loop over the bounces and, once the counter has reached
  \<open>max_bounce\<close>, the cube probes.
\<close>

function refresh_bounces :: "nat \<Rightarrow> nat \<Rightarrow> eevee_state \<Rightarrow> error + eevee_state" where
  "refresh_bounces max_probe max_grid s =
     (if updated_bounce s < max_bounce then
        (let s1 = s\<lparr>num_render_grid := num_grid s\<rparr> in
         case first_dirty s1 (scan_refs max_grid (probes_grid_ref s1) 1) of
           Some (i, ob) \<Rightarrow> refresh_grid_cell i ob s1
         | None \<Rightarrow> refresh_bounces max_probe max_grid (advance_bounce max_grid s1))
      else Inr (refresh_cubes max_probe s))"
  by pat_completeness auto
termination
proof (relation "measure (\<lambda>(max_probe, max_grid, s). max_bounce - updated_bounce s)")
  have tag: "updated_bounce (tag_all f sc s) = updated_bounce s" for f sc s
    unfolding tag_all_def by (induction sc arbitrary: s) (auto simp: ped_modify_def)
  show "wf (measure (\<lambda>(max_probe, max_grid, s). max_bounce - updated_bounce s))"
    by simp
  show "((max_probe, max_grid, advance_bounce max_grid s1), max_probe, max_grid, s)
          \<in> measure (\<lambda>(max_probe, max_grid, s). max_bounce - updated_bounce s)"
    if "updated_bounce s < max_bounce"
      and "s1 = s\<lparr>num_render_grid := num_grid s\<rparr>"
    for max_probe max_grid :: nat and s s1
    using that tag by (auto simp: advance_bounce_def SWAP_irradiance_def Let_def)
qed

declare refresh_bounces.simps [simp del]

text \<open>Lines 810 to 816: baking is skipped while navigating or in playback.\<close>

definition baking_paused :: "DRWContextState \<Rightarrow> bool" where
  "baking_paused draw_ctx = (evil_C draw_ctx \<and> (navigating draw_ctx \<or> animation_no_scrub draw_ctx))"

definition EEVEE_lightprobes_refresh ::
  "nat \<Rightarrow> nat \<Rightarrow> DRWContextState \<Rightarrow> eevee_state \<Rightarrow> error + eevee_state" where
  "EEVEE_lightprobes_refresh max_probe max_grid draw_ctx s =
     (if update_world s then Inr (refresh_world s)
      else if baking_paused draw_ctx then Inr s
      else refresh_bounces max_probe max_grid s)"

subsection \<open>Vocabulary of the properties\<close>

text \<open>
  A bake unit is a capture of the scene from a grid cell or from a cube probe: one call of
  \<^verbatim>\<open>render_scene_to_probe\<close>. The world probe is rendered by \<^verbatim>\<open>render_world_to_probe\<close>.
\<close>

fun is_scene_capture :: "drw_event \<Rightarrow> bool" where
  "is_scene_capture (Ev_scene_capture pos ob) = True"
| "is_scene_capture ev = False"

fun is_cube_capture :: "drw_event \<Rightarrow> bool" where
  "is_cube_capture (Ev_scene_capture (Object_pos p) ob) = True"
| "is_cube_capture ev = False"

definition bake_units :: "drw_event list \<Rightarrow> nat" where
  "bake_units evs = length (filter is_scene_capture evs)"

text \<open>What an invocation that leads from \<open>s\<close> to \<open>s'\<close> has appended to the log.\<close>

definition new_events :: "eevee_state \<Rightarrow> eevee_state \<Rightarrow> drw_event list" where
  "new_events s s' = drop (length (drw_log s)) (drw_log s')"

definition grid_scan :: "nat \<Rightarrow> eevee_state \<Rightarrow> (nat \<times> ob_ptr) list" where
  "grid_scan max_grid s = scan_refs max_grid (probes_grid_ref s) 1"

definition cube_scan :: "nat \<Rightarrow> eevee_state \<Rightarrow> (nat \<times> ob_ptr) list" where
  "cube_scan max_probe s = scan_refs max_probe (probes_cube_ref s) 1"

text \<open>No grid that the scheduler scans needs an update.\<close>

definition grids_clean :: "nat \<Rightarrow> eevee_state \<Rightarrow> bool" where
  "grids_clean max_grid s = (first_dirty s (grid_scan max_grid s) = None)"

text \<open>
  Work that the scheduler can see: a scanned cube probe needs an update, or the bounce
  counter is below the limit and a scanned grid needs an update.
\<close>

definition bake_pending :: "nat \<Rightarrow> nat \<Rightarrow> eevee_state \<Rightarrow> bool" where
  "bake_pending max_probe max_grid s =
     ((updated_bounce s < max_bounce \<and> first_dirty s (grid_scan max_grid s) \<noteq> None)
      \<or> first_dirty s (cube_scan max_probe s) \<noteq> None)"

text \<open>
  The three divisions of the cell location do not trap: the y and the z resolution are
  positive and their product is an \<^verbatim>\<open>int\<close>.
\<close>

definition grid_divisible :: "EEVEE_LightGrid \<Rightarrow> bool" where
  "grid_divisible egrid =
     (case resolution egrid of (res0, res1, res2) \<Rightarrow>
        0 < res1 \<and> 0 < res2 \<and> res2 * res1 < 2 ^ 31)"

definition grids_divisible :: "nat \<Rightarrow> eevee_state \<Rightarrow> bool" where
  "grids_divisible max_grid s =
     list_all (\<lambda>(i, ob). grid_divisible (grid_data s i)) (grid_scan max_grid s)"

text \<open>Successive frames: \<open>k\<close> invocations of the scheduler, stopping at an error.\<close>

fun refresh_frames ::
  "nat \<Rightarrow> nat \<Rightarrow> nat \<Rightarrow> DRWContextState \<Rightarrow> eevee_state \<Rightarrow> error + eevee_state" where
  "refresh_frames 0 max_probe max_grid draw_ctx s = Inr s"
| "refresh_frames (Suc k) max_probe max_grid draw_ctx s =
     (case EEVEE_lightprobes_refresh max_probe max_grid draw_ctx s of
        Inl e \<Rightarrow> Inl e
      | Inr s' \<Rightarrow> refresh_frames k max_probe max_grid draw_ctx s')"

text \<open>The three events of the bake unit of cell \<open>c\<close> of the grid in slot \<open>i\<close>.\<close>

definition cell_unit_events ::
  "nat \<Rightarrow> ob_ptr \<Rightarrow> EEVEE_LightGrid \<Rightarrow> texture option \<Rightarrow> int \<Rightarrow> drw_event list" where
  "cell_unit_events i ob egrid tex c =
     (case lightprobe_cell_location_get egrid c of
        Inl e \<Rightarrow> []
      | Inr local_cell \<Rightarrow>
          [Ev_scene_capture (Cell_pos i local_cell) ob,
           Ev_diffuse_pass tex (wrap32 (offset egrid + c)),
           Ev_request_redraw])"

text \<open>The test of lines 327 and 328, under which \<^verbatim>\<open>cache_add\<close> skips the object.\<close>

definition rejected :: "nat \<Rightarrow> ob_ptr \<Rightarrow> eevee_state \<Rightarrow> bool" where
  "rejected max_probe ob s =
     ((probe_type (data (obs s ob)) = LIGHTPROBE_TYPE_CUBE \<and> max_probe \<le> num_cube s)
      \<or> (probe_type (data (obs s ob)) = LIGHTPROBE_TYPE_GRID \<and> max_probe \<le> num_grid s))"

subsection \<open>Frames and example scenes\<close>

text \<open>
  Modelled from the spec: the registry calls of one frame in the order of the per-frame
  protocol (the engine that issues them, \<^verbatim>\<open>eevee_engine.c\<close>, is not part of the source
  file): \<^verbatim>\<open>cache_init\<close>, \<^verbatim>\<open>cache_add\<close> for every probe object of the scene, \<^verbatim>\<open>cache_finish\<close>;
  \<^verbatim>\<open>refresh\<close> follows when the frame is drawn. The scene of the frame is the object
  store \<open>scene\<close> and the list \<open>visible\<close> of the probe objects handed to \<^verbatim>\<open>cache_add\<close>.
\<close>

definition probes_cache ::
  "nat \<Rightarrow> nat \<Rightarrow> bool option \<Rightarrow> (ob_ptr \<Rightarrow> Object) \<Rightarrow> ob_ptr list \<Rightarrow> eevee_state \<Rightarrow> eevee_state" where
  "probes_cache max_probe max_grid wo scene visible s =
     EEVEE_lightprobes_cache_finish max_probe max_grid
       (fold (EEVEE_lightprobes_cache_add max_probe) visible
          (EEVEE_lightprobes_cache_init wo (s\<lparr>obs := scene\<rparr>)))"

text \<open>Zero-initialised data, as \<^verbatim>\<open>MEM_callocN\<close> returns it (\<open>specular_toggle\<close> is set by \<^verbatim>\<open>init\<close>).\<close>

definition zero_ped :: EEVEE_LightProbeEngineData where
  "zero_ped = \<lparr>need_update = False, ready_to_shade = False, updated_cells = 0,
               num_cell = 0, probe_id = 0\<rparr>"

definition probe_object :: "lightprobe_type \<Rightarrow> int \<times> int \<times> int \<Rightarrow> bool \<Rightarrow> Object" where
  "probe_object ty res flag =
     (case res of (rx, ry, rz) \<Rightarrow>
       \<lparr>data = \<lparr>probe_type = ty, grid_resolution_x = rx, grid_resolution_y = ry,
                 grid_resolution_z = rz\<rparr>,
        deg_runtime_data_update = flag\<rparr>)"

definition zero_state :: eevee_state where
  "zero_state =
     \<lparr>update_world = False, world_ready_to_shade = False,
      num_cube = 0, num_grid = 0, cache_num_cube = 0,
      num_render_cube = 0, num_render_grid = 0, updated_bounce = 0,
      update_flag_cube = False,
      probes_cube_ref = (\<lambda>i. None), probes_grid_ref = (\<lambda>i. None),
      grid_data = (\<lambda>i. \<lparr>offset = 0, resolution = (0, 0, 0)\<rparr>),
      specular_toggle = True, layer = 0,
      probe_pool = None, irradiance_pool = None, irradiance_rt = None,
      obs = (\<lambda>ob. probe_object LIGHTPROBE_TYPE_OTHER (0, 0, 0) False),
      ped = (\<lambda>ob. zero_ped),
      next_texture = 0, drw_log = []\<rparr>"

definition ctx_idle :: DRWContextState where
  "ctx_idle = \<lparr>evil_C = True, navigating = False, animation_no_scrub = False\<rparr>"

definition ctx_navigating :: DRWContextState where
  "ctx_navigating = \<lparr>evil_C = True, navigating = True, animation_no_scrub = False\<rparr>"

text \<open>
  A scene with the grid 7 of resolution \<open>(2, 2, 2)\<close> and the cube probe 9; \<open>flag\<close> says
  whether the dependency graph has tagged the objects in this frame.
\<close>

definition scene_7_9 :: "bool \<Rightarrow> ob_ptr \<Rightarrow> Object" where
  "scene_7_9 flag ob =
     (if ob = 7 then probe_object LIGHTPROBE_TYPE_GRID (2, 2, 2) flag
      else probe_object LIGHTPROBE_TYPE_CUBE (0, 0, 0) flag)"

text \<open>
  The first frame of that scene, both objects tagged, up to \<^verbatim>\<open>cache_finish\<close>: the atlas
  has just been allocated, so the world is dirty, and so are the grid and the cube probe.
\<close>

definition frame1_cached :: eevee_state where
  "frame1_cached = probes_cache 128 64 None (scene_7_9 True) [7, 9] zero_state"

text \<open>The second frame up to \<^verbatim>\<open>cache_finish\<close>, after the first has rendered the world.\<close>

definition frame2_cached :: eevee_state where
  "frame2_cached =
     probes_cache 128 64 None (scene_7_9 False) [7, 9] (refresh_world frame1_cached)"

text \<open>
  The same scene with the grid hidden in the second frame, so that the scheduler runs
  through the bounces and captures the cube probe; with the cube probe hidden in the third
  and both objects shown again, untagged, in the fourth and the fifth.
\<close>

definition frame2_no_grid :: eevee_state where
  "frame2_no_grid =
     probes_cache 128 64 None (scene_7_9 False) [9] (refresh_world frame1_cached)"

definition frame2_done :: eevee_state where
  "frame2_done = projr (EEVEE_lightprobes_refresh 128 64 ctx_idle frame2_no_grid)"

definition frame3_no_cube :: eevee_state where
  "frame3_no_cube = probes_cache 128 64 None (scene_7_9 False) [7] frame2_done"

definition frame4_both :: eevee_state where
  "frame4_both =
     probes_cache 128 64 None (scene_7_9 False) [7, 9] (refresh_world frame3_no_cube)"

definition frame5_both :: eevee_state where
  "frame5_both =
     probes_cache 128 64 None (scene_7_9 False) [7, 9] (refresh_world frame4_both)"

text \<open>
  After the second frame without the grid, two more frames with the cube probe alone,
  tagged by the dependency graph in both: the third frame complete, and the fourth up
  to its \<^verbatim>\<open>cache_add\<close>.
\<close>

definition frame3_tagged :: eevee_state where
  "frame3_tagged = probes_cache 128 64 None (scene_7_9 True) [9] frame2_done"

definition frame3_tagged_done :: eevee_state where
  "frame3_tagged_done = projr (EEVEE_lightprobes_refresh 128 64 ctx_idle frame3_tagged)"

definition frame4_tagged_add :: eevee_state where
  "frame4_tagged_add =
     EEVEE_lightprobes_cache_add 128 9
       (EEVEE_lightprobes_cache_init None (frame3_tagged_done\<lparr>obs := scene_7_9 True\<rparr>))"

text \<open>
  The example scene after three cells of the grid have been baked, and the next frame, in
  which the cube probe is hidden, up to its \<^verbatim>\<open>cache_add\<close>.
\<close>

definition frame2_baked3 :: eevee_state where
  "frame2_baked3 = projr (refresh_frames 3 128 64 ctx_idle frame2_cached)"

definition cube_hidden_added :: eevee_state where
  "cube_hidden_added =
     EEVEE_lightprobes_cache_add 128 7
       (EEVEE_lightprobes_cache_init None (frame2_baked3\<lparr>obs := scene_7_9 False\<rparr>))"

text \<open>
  The frame after the one that has captured the cube probe 9 (with the grid hidden), up to
  its \<^verbatim>\<open>cache_add\<close>: the grid 7, the cube probe 9 and a second cube probe, 10, all
  untagged.
\<close>

definition cube_added :: eevee_state where
  "cube_added =
     fold (EEVEE_lightprobes_cache_add 128) [7, 9, 10]
       (EEVEE_lightprobes_cache_init None (frame2_done\<lparr>obs := scene_7_9 False\<rparr>))"





text \<open>
  A scene whose grid 7 has the resolution \<open>(1, 65536, 65536)\<close>: the first frame, tagged,
  and the second frame up to \<^verbatim>\<open>cache_finish\<close>.
\<close>

definition scene_wide_grid :: "bool \<Rightarrow> ob_ptr \<Rightarrow> Object" where
  "scene_wide_grid flag ob = probe_object LIGHTPROBE_TYPE_GRID (1, 65536, 65536) flag"

definition frame1_wide_grid :: eevee_state where
  "frame1_wide_grid = probes_cache 128 64 None (scene_wide_grid True) [7] zero_state"

definition frame2_wide_grid :: eevee_state where
  "frame2_wide_grid =
     probes_cache 128 64 None (scene_wide_grid False) [7] (refresh_world frame1_wide_grid)"

text \<open>
  A scene of grids only, the objects 1 to 63 registered: all slots that the scans of the
  grids visit with \<^verbatim>\<open>MAX_GRID\<close> = 64 are taken.
\<close>

definition scene_grids :: "ob_ptr \<Rightarrow> Object" where
  "scene_grids ob = probe_object LIGHTPROBE_TYPE_GRID (1, 1, 1) False"

definition sixty_three_grids :: eevee_state where
  "sixty_three_grids =
     fold (EEVEE_lightprobes_cache_add 128) [1..<64]
       (EEVEE_lightprobes_cache_init None (zero_state\<lparr>obs := scene_grids\<rparr>))"

section \<open>Properties\<close>

subsection \<open>C arithmetic\<close>

lemma wrap32_id: "- (2 ^ 31) \<le> k \<Longrightarrow> k < 2 ^ 31 \<Longrightarrow> wrap32 k = k"
  by (simp add: wrap32_def)

lemma int_div_pos: "0 < b \<Longrightarrow> int_div a b = Inr (a sdiv b)"
  by (simp add: int_div_def)

lemma int_mod_pos: "0 < b \<Longrightarrow> int_mod a b = Inr (a smod b)"
  by (simp add: int_mod_def)

lemma round_half_even_of_int: "round_half_even (of_int m) = m"
  by (simp add: round_half_even_def)

lemma powr_powi: "(2::real) powr (of_int e) = 2 powi e"
  by (rule powr_real_of_int') simp_all

lemma floor_log2_eq:
  assumes "2 powi e \<le> \<bar>x\<bar>" "\<bar>x\<bar> < 2 powi (e + 1)"
  shows "\<lfloor>log 2 \<bar>x::real\<bar>\<rfloor> = e"
proof -
  have "(0::real) < 2 powi e" by simp
  then have pos: "0 < \<bar>x\<bar>" using assms(1) by linarith
  have "2 powr (of_int e) \<le> \<bar>x\<bar>" "\<bar>x\<bar> < 2 powr (of_int (e + 1))"
    using assms by (simp_all only: powr_powi)
  then show ?thesis
    using pos by (subst floor_log_eq_powr_iff) simp_all
qed

text \<open>The rounding of a number whose binary exponent is known.\<close>

lemma binary32_round_eval:
  assumes "2 powi e \<le> \<bar>x\<bar>" "\<bar>x\<bar> < 2 powi (e + 1)" "- 126 \<le> e"
  shows "binary32_round x = of_int (round_half_even (x / 2 powi (e - 23))) * 2 powi (e - 23)"
proof -
  have "(0::real) < 2 powi e" by simp
  then have "x \<noteq> 0" using assms(1) by linarith
  then show ?thesis
    using assms(3) by (simp add: binary32_round_def floor_log2_eq [OF assms(1,2)] Let_def max_def)
qed

text \<open>Every integer up to \<open>2 ^ 24\<close> is a binary32 number.\<close>

lemma binary32_round_of_int:
  assumes "\<bar>k\<bar> \<le> 2 ^ 24"
  shows "binary32_round (of_int k) = of_int k"
proof (cases "k = 0")
  case True
  then show ?thesis by (simp add: binary32_round_def)
next
  case False
  define e where "e = \<lfloor>log 2 \<bar>real_of_int k\<bar>\<rfloor>"
  have k1: "1 \<le> \<bar>real_of_int k\<bar>" using False by linarith
  have e0: "0 \<le> e" unfolding e_def using k1 by simp
  have ke: "2 powi e \<le> \<bar>real_of_int k\<bar>"
    using k1 floor_log_eq_powr_iff [where b = 2 and x = "\<bar>real_of_int k\<bar>" and k = e]
    by (simp add: e_def powr_powi)
  have "real_of_int \<bar>k\<bar> \<le> real_of_int (2 ^ 24)" using assms by (simp only: of_int_le_iff)
  then have k24: "\<bar>real_of_int k\<bar> \<le> 2 ^ 24" by simp
  have "log 2 \<bar>real_of_int k\<bar> \<le> log 2 (2 ^ 24)"
    using k1 k24 by (subst log_le_cancel_iff) simp_all
  also have "\<dots> = 24" by (simp only: log_pow_cancel)
  finally have e24: "e \<le> 24" unfolding e_def by linarith
  have m: "max e (- 126) = e" using e0 by simp
  have "\<exists>m::int. real_of_int k / 2 powi (e - 23) = of_int m"
  proof (cases "e \<le> 23")
    case True
    then have "real_of_int k / 2 powi (e - 23) = of_int (k * 2 ^ nat (23 - e))"
      by (simp add: power_int_def field_simps)
    then show ?thesis by blast
  next
    case False
    then have e: "e = 24" using e24 by simp
    then have "(2::real) ^ 24 \<le> \<bar>real_of_int k\<bar>" using ke by simp
    then have "\<bar>real_of_int k\<bar> = 2 ^ 24" using k24 by linarith
    then have "real_of_int k = 2 ^ 24 \<or> real_of_int k = - (2 ^ 24)" by linarith
    then have "real_of_int k / 2 powi (e - 23) = of_int (2 ^ 23)
             \<or> real_of_int k / 2 powi (e - 23) = of_int (- (2 ^ 23))"
      unfolding e by auto
    then show ?thesis by blast
  qed
  then obtain m :: int where m': "real_of_int k / 2 powi (e - 23) = of_int m" ..
  then have "of_int m * 2 powi (e - 23) = real_of_int k" by (simp add: field_simps)
  then show ?thesis
    using False by (simp add: binary32_round_def Let_def e_def [symmetric] m m' round_half_even_of_int)
qed

lemma float_of_int_exact: "\<bar>k\<bar> \<le> 2 ^ 24 \<Longrightarrow> float_of_int k = of_int k"
  by (simp add: float_of_int_def binary32_round_of_int)

lemma binary32_round_small:
  "binary32_round 0 = 0"
  "binary32_round 1 = 1"
  "binary32_round 2 = 2"
  "binary32_round 3 = 3"
  "binary32_round 4 = 4"
  "binary32_round 5 = 5"
  "binary32_round 6 = 6"
  "binary32_round 10 = 10"
  using binary32_round_of_int [of 0] binary32_round_of_int [of 1] binary32_round_of_int [of 2]
    binary32_round_of_int [of 3] binary32_round_of_int [of 4] binary32_round_of_int [of 5]
    binary32_round_of_int [of 6] binary32_round_of_int [of 10]
  by simp_all

text \<open>The first integer that is not a binary32 number is rounded to its even neighbour.\<close>

lemma binary32_round_16777217: "binary32_round 16777217 = 16777216"
  by (subst binary32_round_eval [where e = 24])
     (simp_all add: round_half_even_def power_int_minus)

subsection \<open>Arithmetic of the cell index\<close>

lemma sdiv_nonneg: "0 \<le> a \<Longrightarrow> 0 < b \<Longrightarrow> a sdiv b = a div (b::int)"
  by (cases "a = 0") (simp_all add: signed_divide_int_def sgn_if)

lemma smod_nonneg: "0 \<le> a \<Longrightarrow> 0 < b \<Longrightarrow> a smod b = a mod (b::int)"
  by (cases "a = 0") (simp_all add: signed_modulo_int_def sgn_if)

lemma flat_decode:
  assumes "0 < resY" "0 < resZ" "0 \<le> x" "0 \<le> y" "y < resY" "0 \<le> z" "z < resZ"
  shows "(z + resZ * (y + resY * x)) mod resZ = (z::int)"
    and "(z + resZ * (y + resY * x)) div resZ = y + resY * x"
    and "(y + resY * x) mod resY = y"
    and "(z + resZ * (y + resY * x)) div (resZ * resY) = x"
proof -
  show "(z + resZ * (y + resY * x)) mod resZ = z" using assms by simp
  show b: "(z + resZ * (y + resY * x)) div resZ = y + resY * x" using assms by simp
  show "(y + resY * x) mod resY = y" using assms by simp
  have "(z + resZ * (y + resY * x)) div (resZ * resY)
          = ((z + resZ * (y + resY * x)) div resZ) div resY"
    using assms by (simp add: zdiv_zmult2_eq)
  then show "(z + resZ * (y + resY * x)) div (resZ * resY) = x"
    using assms b by simp
qed

lemma location_of_flat_index:
  assumes "0 < resY" "0 < resZ" "resZ * resY < 2 ^ 31"
    and "0 \<le> x" "0 \<le> y" "y < resY" "0 \<le> z" "z < resZ"
    and "x \<le> 2 ^ 24" "resY \<le> 2 ^ 24" "resZ \<le> 2 ^ 24"
  shows "lightprobe_cell_location_get \<lparr>offset = offs, resolution = (resX, resY, resZ)\<rparr>
           (spec_flat_index (resX, resY, resZ) (x, y, z))
         = Inr (of_int x, of_int y, of_int z)"
proof -
  let ?idx = "z + resZ * (y + resY * x)"
  have nn: "0 \<le> ?idx" "0 \<le> y + resY * x" using assms by simp_all
  have pz: "0 < resZ * resY" using assms by simp
  have w: "wrap32 (resZ * resY) = resZ * resY"
    using pz assms(3) by (intro wrap32_id) simp_all
  have d: "?idx smod resZ = z" "?idx sdiv resZ = y + resY * x"
    "(y + resY * x) smod resY = y" "?idx sdiv (resZ * resY) = x"
    using nn pz assms flat_decode [of resY resZ x y z]
    by (simp_all add: sdiv_nonneg smod_nonneg)
  have f: "float_of_int x = of_int x" "float_of_int y = of_int y" "float_of_int z = of_int z"
    using assms by (simp_all add: float_of_int_exact)
  show ?thesis
    using assms(1,2) pz
    by (simp add: lightprobe_cell_location_get_def spec_flat_index_def Let_def
        int_div_pos int_mod_pos w d f)
qed

lemma flat_index_bounds:
  assumes "0 < resX" "0 < resY" "0 < resZ"
    and "0 \<le> x" "x < resX" "0 \<le> y" "y < resY" "0 \<le> z" "z < resZ"
  shows "0 \<le> spec_flat_index (resX, resY, resZ) (x, y, z)"
    and "spec_flat_index (resX, resY, resZ) (x, y, z) < resX * resY * resZ"
proof -
  show "0 \<le> spec_flat_index (resX, resY, resZ) (x, y, z)"
    using assms by (simp add: spec_flat_index_def)
  have "y + resY * x \<le> (resY - 1) + resY * (resX - 1)"
    using assms by (intro add_mono mult_left_mono) auto
  then have "y + resY * x < resY * resX" by (simp add: algebra_simps)
  then have "resZ * (y + resY * x) \<le> resZ * (resY * resX - 1)"
    using assms by (intro mult_left_mono) auto
  then show "spec_flat_index (resX, resY, resZ) (x, y, z) < resX * resY * resZ"
    using assms by (simp add: spec_flat_index_def algebra_simps)
qed

text \<open>
  C4, as amended. For a resolution with positive components, each at most \<open>2 ^ 24\<close>, whose
  product \<open>resX * resY * resZ\<close> is an \<^verbatim>\<open>int\<close> (below \<open>2 ^ 31\<close>), and a cell \<open>(x, y, z)\<close>
  inside it, \<^verbatim>\<open>lightprobe_cell_location_get\<close> applied to the flattened index
  \<open>z + resZ * (y + resY * x)\<close> does not trap and gives back \<open>(x, y, z)\<close>, as floats. The
  index lies in \<open>0 \<le> idx < resX * resY * resZ\<close>, and the index that follows it decodes to
  the next cell with \<open>z\<close> moving fastest, then \<open>y\<close>, then \<open>x\<close>.
\<close>

theorem cell_index_roundtrip:
  assumes res: "0 < resX" "0 < resY" "0 < resZ"
    and bound: "resX * resY * resZ < 2 ^ 31" "resX \<le> 2 ^ 24" "resY \<le> 2 ^ 24" "resZ \<le> 2 ^ 24"
    and c: "0 \<le> x" "x < resX" "0 \<le> y" "y < resY" "0 \<le> z" "z < resZ"
  shows "lightprobe_cell_location_get \<lparr>offset = offs, resolution = (resX, resY, resZ)\<rparr>
           (spec_flat_index (resX, resY, resZ) (x, y, z)) = Inr (of_int x, of_int y, of_int z)
       \<and> 0 \<le> spec_flat_index (resX, resY, resZ) (x, y, z)
       \<and> spec_flat_index (resX, resY, resZ) (x, y, z) < resX * resY * resZ
       \<and> (z + 1 < resZ \<longrightarrow>
            lightprobe_cell_location_get \<lparr>offset = offs, resolution = (resX, resY, resZ)\<rparr>
              (spec_flat_index (resX, resY, resZ) (x, y, z) + 1)
            = Inr (of_int x, of_int y, of_int (z + 1)))
       \<and> (z + 1 = resZ \<and> y + 1 < resY \<longrightarrow>
            lightprobe_cell_location_get \<lparr>offset = offs, resolution = (resX, resY, resZ)\<rparr>
              (spec_flat_index (resX, resY, resZ) (x, y, z) + 1)
            = Inr (of_int x, of_int (y + 1), 0))
       \<and> (z + 1 = resZ \<and> y + 1 = resY \<and> x + 1 < resX \<longrightarrow>
            lightprobe_cell_location_get \<lparr>offset = offs, resolution = (resX, resY, resZ)\<rparr>
              (spec_flat_index (resX, resY, resZ) (x, y, z) + 1)
            = Inr (of_int (x + 1), 0, 0))"
proof -
  have "resZ * resY * 1 \<le> resZ * resY * resX"
    using res by (intro mult_left_mono) simp_all
  then have zy: "resZ * resY < 2 ^ 31"
    using bound(1) by (simp add: mult.commute mult.left_commute)
  note loc = location_of_flat_index [OF res(2,3) zy, where resX = resX and offs = offs]
  have c1: "lightprobe_cell_location_get \<lparr>offset = offs, resolution = (resX, resY, resZ)\<rparr>
          (spec_flat_index (resX, resY, resZ) (x, y, z)) = Inr (of_int x, of_int y, of_int z)"
    using res c bound by (intro loc) auto
  have c2: "0 \<le> spec_flat_index (resX, resY, resZ) (x, y, z)"
    using res c by (intro flat_index_bounds) auto
  have c3: "spec_flat_index (resX, resY, resZ) (x, y, z) < resX * resY * resZ"
    using res c by (intro flat_index_bounds) auto
  have c4: "z + 1 < resZ \<longrightarrow>
            lightprobe_cell_location_get \<lparr>offset = offs, resolution = (resX, resY, resZ)\<rparr>
              (spec_flat_index (resX, resY, resZ) (x, y, z) + 1)
            = Inr (of_int x, of_int y, of_int (z + 1))"
  proof
    assume "z + 1 < resZ"
    then have "lightprobe_cell_location_get \<lparr>offset = offs, resolution = (resX, resY, resZ)\<rparr>
                 (spec_flat_index (resX, resY, resZ) (x, y, z + 1))
               = Inr (of_int x, of_int y, of_int (z + 1))"
      using res c bound by (intro loc) auto
    then show "lightprobe_cell_location_get \<lparr>offset = offs, resolution = (resX, resY, resZ)\<rparr>
                 (spec_flat_index (resX, resY, resZ) (x, y, z) + 1)
               = Inr (of_int x, of_int y, of_int (z + 1))"
      by (simp add: spec_flat_index_def algebra_simps)
  qed
  have c5: "z + 1 = resZ \<and> y + 1 < resY \<longrightarrow>
            lightprobe_cell_location_get \<lparr>offset = offs, resolution = (resX, resY, resZ)\<rparr>
              (spec_flat_index (resX, resY, resZ) (x, y, z) + 1)
            = Inr (of_int x, of_int (y + 1), 0)"
  proof
    assume a: "z + 1 = resZ \<and> y + 1 < resY"
    then have "lightprobe_cell_location_get \<lparr>offset = offs, resolution = (resX, resY, resZ)\<rparr>
                 (spec_flat_index (resX, resY, resZ) (x, y + 1, 0))
               = Inr (of_int x, of_int (y + 1), of_int 0)"
      using res c bound by (intro loc) auto
    moreover have "spec_flat_index (resX, resY, resZ) (x, y + 1, 0)
                     = spec_flat_index (resX, resY, resZ) (x, y, z) + 1"
      using a by (auto simp: spec_flat_index_def algebra_simps)
    ultimately show "lightprobe_cell_location_get \<lparr>offset = offs, resolution = (resX, resY, resZ)\<rparr>
                 (spec_flat_index (resX, resY, resZ) (x, y, z) + 1)
               = Inr (of_int x, of_int (y + 1), 0)"
      by simp
  qed
  have c6: "z + 1 = resZ \<and> y + 1 = resY \<and> x + 1 < resX \<longrightarrow>
            lightprobe_cell_location_get \<lparr>offset = offs, resolution = (resX, resY, resZ)\<rparr>
              (spec_flat_index (resX, resY, resZ) (x, y, z) + 1)
            = Inr (of_int (x + 1), 0, 0)"
  proof
    assume a: "z + 1 = resZ \<and> y + 1 = resY \<and> x + 1 < resX"
    then have "lightprobe_cell_location_get \<lparr>offset = offs, resolution = (resX, resY, resZ)\<rparr>
                 (spec_flat_index (resX, resY, resZ) (x + 1, 0, 0))
               = Inr (of_int (x + 1), of_int 0, of_int 0)"
      using res c bound by (intro loc) auto
    moreover have "spec_flat_index (resX, resY, resZ) (x + 1, 0, 0)
                     = spec_flat_index (resX, resY, resZ) (x, y, z) + 1"
      using a by (auto simp: spec_flat_index_def algebra_simps)
    ultimately show "lightprobe_cell_location_get \<lparr>offset = offs, resolution = (resX, resY, resZ)\<rparr>
                 (spec_flat_index (resX, resY, resZ) (x, y, z) + 1)
               = Inr (of_int (x + 1), 0, 0)"
      by simp
  qed
  show ?thesis
    by (rule conjI [OF c1 conjI [OF c2 conjI [OF c3 conjI [OF c4 conjI [OF c5 c6]]]]])
qed

text \<open>
  The round trip at the resolution \<open>(2, 3, 4)\<close> and the cell \<open>(0, 1, 2)\<close>, whose index is 6;
  index 7 is the cell \<open>(0, 1, 3)\<close>.
\<close>

theorem cell_index_roundtrip_witness:
  "lightprobe_cell_location_get \<lparr>offset = 1, resolution = (2, 3, 4)\<rparr>
     (spec_flat_index (2, 3, 4) (0, 1, 2)) = Inr (0, 1, 2)
   \<and> spec_flat_index (2, 3, 4) (0, 1, 2) = 6
   \<and> lightprobe_cell_location_get \<lparr>offset = 1, resolution = (2, 3, 4)\<rparr> 7 = Inr (0, 1, 3)"
  using cell_index_roundtrip [of 2 3 4 0 1 2 1]
  by (simp add: spec_flat_index_def)

text \<open>
  C4 as stated fails for positive resolutions outside these bounds. At the resolution
  \<open>(1, 65536, 65536)\<close> the divisor \<^verbatim>\<open>resolution[2] * resolution[1]\<close> of line 769 wraps
  to 0, and decoding the index 5 of the cell \<open>(0, 0, 5)\<close> traps. At the resolution
  \<open>(33554432, 1, 1)\<close> the index 16777217 of the cell \<open>(16777217, 0, 0)\<close> decodes to the
  float 16777216.
\<close>

theorem cell_index_overflow_counterexample:
  "spec_flat_index (1, 65536, 65536) (0, 0, 5) = 5
   \<and> lightprobe_cell_location_get \<lparr>offset = 1, resolution = (1, 65536, 65536)\<rparr>
        (spec_flat_index (1, 65536, 65536) (0, 0, 5)) = Inl Division_by_zero
   \<and> spec_flat_index (33554432, 1, 1) (16777217, 0, 0) = 16777217
   \<and> lightprobe_cell_location_get \<lparr>offset = 1, resolution = (33554432, 1, 1)\<rparr>
        (spec_flat_index (33554432, 1, 1) (16777217, 0, 0)) = Inr (16777216, 0, 0)"
  by (simp add: lightprobe_cell_location_get_def spec_flat_index_def int_div_def int_mod_def
      wrap32_def float_of_int_def signed_divide_int_def signed_modulo_int_def
      binary32_round_small binary32_round_16777217)

subsection \<open>The glossy filter\<close>

lemma maxlevel_eq: "maxlevel = 10"
proof -
  have "log 2 (real PROBE_OCTAHEDRON_SIZE) = log 2 (2 ^ 10)"
    by (simp add: PROBE_OCTAHEDRON_SIZE_def)
  also have "\<dots> = 10"
    by (simp only: log_pow_cancel)
  finally show ?thesis
    by (simp add: maxlevel_def)
qed

lemma CLAMP_max_min: "b \<le> c \<Longrightarrow> CLAMP a b c = max b (min c a)"
  by (auto simp: CLAMP_def)

text \<open>The float literals \<^verbatim>\<open>1e-8f\<close> and \<^verbatim>\<open>0.99999f\<close>.\<close>

lemma binary32_round_1e8: "binary32_round (1 / 100000000) = 11258999 / 1125899906842624"
  by (subst binary32_round_eval [where e = "- 27"])
     (simp_all add: round_half_even_def power_int_minus)

lemma binary32_round_099999: "binary32_round (99999 / 100000) = 2097131 / 2097152"
  by (subst binary32_round_eval [where e = "- 1"])
     (simp_all add: round_half_even_def power_int_minus)

text \<open>The quotients \<open>i / 6\<close>.\<close>

lemma binary32_round_1_6: "binary32_round (1 / 6) = 11184811 / 67108864"
  by (subst binary32_round_eval [where e = "- 3"])
     (simp_all add: round_half_even_def power_int_minus)

lemma binary32_round_1_3: "binary32_round (1 / 3) = 11184811 / 33554432"
  by (subst binary32_round_eval [where e = "- 2"])
     (simp_all add: round_half_even_def power_int_minus)

lemma binary32_round_1_2: "binary32_round (1 / 2) = 1 / 2"
  by (subst binary32_round_eval [where e = "- 1"])
     (simp_all add: round_half_even_def power_int_minus)

lemma binary32_round_2_3: "binary32_round (2 / 3) = 11184811 / 16777216"
  by (subst binary32_round_eval [where e = "- 1"])
     (simp_all add: round_half_even_def power_int_minus)

lemma binary32_round_5_6: "binary32_round (5 / 6) = 13981013 / 16777216"
  by (subst binary32_round_eval [where e = "- 1"])
     (simp_all add: round_half_even_def power_int_minus)

text \<open>Their squares.\<close>

lemma binary32_round_sq1:
  "binary32_round (125099997105721 / 4503599627370496) = 7456541 / 268435456"
  by (subst binary32_round_eval [where e = "- 6"])
     (simp_all add: round_half_even_def power_int_minus)

lemma binary32_round_sq2:
  "binary32_round (125099997105721 / 1125899906842624) = 7456541 / 67108864"
  by (subst binary32_round_eval [where e = "- 4"])
     (simp_all add: round_half_even_def power_int_minus)

lemma binary32_round_sq3: "binary32_round (1 / 4) = 1 / 4"
  by (subst binary32_round_eval [where e = "- 2"])
     (simp_all add: round_half_even_def power_int_minus)

lemma binary32_round_sq4:
  "binary32_round (125099997105721 / 281474976710656) = 7456541 / 16777216"
  by (subst binary32_round_eval [where e = "- 2"])
     (simp_all add: round_half_even_def power_int_minus)

lemma binary32_round_sq5:
  "binary32_round (195468724506169 / 281474976710656) = 2912711 / 4194304"
  by (subst binary32_round_eval [where e = "- 1"])
     (simp_all add: round_half_even_def power_int_minus)

text \<open>The squares of the squares.\<close>

lemma binary32_round_qu1:
  "binary32_round (55600003684681 / 72057594037927936) = 6628037 / 8589934592"
  by (subst binary32_round_eval [where e = "- 11"])
     (simp_all add: round_half_even_def power_int_minus)

lemma binary32_round_qu2:
  "binary32_round (55600003684681 / 4503599627370496) = 6628037 / 536870912"
  by (subst binary32_round_eval [where e = "- 7"])
     (simp_all add: round_half_even_def power_int_minus)

lemma binary32_round_qu3: "binary32_round (1 / 16) = 1 / 16"
  by (subst binary32_round_eval [where e = "- 4"])
     (simp_all add: round_half_even_def power_int_minus)

lemma binary32_round_qu4:
  "binary32_round (55600003684681 / 281474976710656) = 6628037 / 33554432"
  by (subst binary32_round_eval [where e = "- 3"])
     (simp_all add: round_half_even_def power_int_minus)

lemma binary32_round_qu5:
  "binary32_round (8483885369521 / 17592186044416) = 16181727 / 33554432"
  by (subst binary32_round_eval [where e = "- 2"])
     (simp_all add: round_half_even_def power_int_minus)

lemmas binary32_round_values = binary32_round_small binary32_round_1e8 binary32_round_099999
  binary32_round_1_6 binary32_round_1_3 binary32_round_1_2 binary32_round_2_3 binary32_round_5_6
  binary32_round_sq1 binary32_round_sq2 binary32_round_sq3 binary32_round_sq4 binary32_round_sq5
  binary32_round_qu1 binary32_round_qu2 binary32_round_qu3 binary32_round_qu4 binary32_round_qu5

text \<open>The roughness of the seven levels of the loop, as binary32 numbers.\<close>

lemma glossy_roughness_values:
  "glossy_roughness 0 = 11258999 / 1125899906842624"
  "glossy_roughness 1 = 6628037 / 8589934592"
  "glossy_roughness 2 = 6628037 / 536870912"
  "glossy_roughness 3 = 1 / 16"
  "glossy_roughness 4 = 6628037 / 33554432"
  "glossy_roughness 5 = 16181727 / 33554432"
  "glossy_roughness 6 = 2097131 / 2097152"
  "glossy_roughness (Suc 0) = 6628037 / 8589934592"
  by (simp_all add: glossy_roughness_def Let_def float_div_def float_mul_def float_sub_def
      float_of_int_def maxlevel_eq CLAMP_def binary32_round_values)

lemma spec_roughness_values:
  "spec_roughness 0 = 1 / 100000000"
  "spec_roughness 1 = 1 / 1296"
  "spec_roughness 2 = 1 / 81"
  "spec_roughness 3 = 1 / 16"
  "spec_roughness 4 = 16 / 81"
  "spec_roughness 5 = 625 / 1296"
  "spec_roughness 6 = 99999 / 100000"
  "spec_roughness (Suc 0) = 1 / 1296"
  by (simp_all add: spec_roughness_def maxlevel_eq power2_eq_square)

lemma less_7_cases: "i < 7 \<Longrightarrow> i = 0 \<or> i = 1 \<or> i = 2 \<or> i = 3 \<or> i = 4 \<or> i = 5 \<or> i = (6::nat)"
  by arith

text \<open>
  C8. The roughness of level \<open>i\<close> is the formula
  \<^verbatim>\<open>clamp(((i / (maxLevel - 4))^2)^2, 1e-8, 0.99999)\<close> evaluated in single precision, for
  every \<open>i\<close>; the values of the seven levels of the loop are listed. At level 0 it is the
  lower clamp bound, the float \<^verbatim>\<open>1e-8f\<close>. Over the levels of the loop it differs from the
  value of the formula over the real numbers by at most the fraction \<open>1 / 2 ^ 22\<close> of that
  value, and it does not decrease from a level to a later one.
\<close>

theorem glossy_roughness_levels:
  "glossy_roughness i = spec_roughness_binary32 i
   \<and> glossy_roughness 0 = binary32_round (1 / 10 ^ 8)
   \<and> glossy_roughness 0 = 11258999 / 1125899906842624
   \<and> glossy_roughness 1 = 6628037 / 8589934592
   \<and> glossy_roughness 2 = 6628037 / 536870912
   \<and> glossy_roughness 3 = 1 / 16
   \<and> glossy_roughness 4 = 6628037 / 33554432
   \<and> glossy_roughness 5 = 16181727 / 33554432
   \<and> glossy_roughness 6 = 2097131 / 2097152
   \<and> (int i < maxlevel - min_lod_level \<longrightarrow>
        \<bar>glossy_roughness i - spec_roughness i\<bar> \<le> spec_roughness i / 2 ^ 22)
   \<and> (i \<le> j \<and> int j < maxlevel - min_lod_level \<longrightarrow> glossy_roughness i \<le> glossy_roughness j)"
proof -
  have lohi: "binary32_round (1 / 10 ^ 8) \<le> binary32_round (99999 / 100000)"
    by (simp add: binary32_round_values)
  have c1: "glossy_roughness i = spec_roughness_binary32 i"
    unfolding glossy_roughness_def spec_roughness_binary32_def Let_def
    using lohi
    by (simp add: CLAMP_max_min float_div_def float_mul_def float_sub_def
        float_of_int_def power2_eq_square)
  have c2: "glossy_roughness 0 = binary32_round (1 / 10 ^ 8)"
    by (simp add: glossy_roughness_values binary32_round_values)
  have c3: "int i < maxlevel - min_lod_level \<longrightarrow>
        \<bar>glossy_roughness i - spec_roughness i\<bar> \<le> spec_roughness i / 2 ^ 22"
  proof
    assume "int i < maxlevel - min_lod_level"
    then have "i < 7" by (simp add: maxlevel_eq min_lod_level_def)
    then have "i = 0 \<or> i = 1 \<or> i = 2 \<or> i = 3 \<or> i = 4 \<or> i = 5 \<or> i = 6"
      by (rule less_7_cases)
    then show "\<bar>glossy_roughness i - spec_roughness i\<bar> \<le> spec_roughness i / 2 ^ 22"
      by (elim disjE) (simp_all add: glossy_roughness_values spec_roughness_values)
  qed
  have c4: "i \<le> j \<and> int j < maxlevel - min_lod_level \<longrightarrow> glossy_roughness i \<le> glossy_roughness j"
  proof
    assume a: "i \<le> j \<and> int j < maxlevel - min_lod_level"
    then have "j < 7" by (simp add: maxlevel_eq min_lod_level_def)
    then have j: "j = 0 \<or> j = 1 \<or> j = 2 \<or> j = 3 \<or> j = 4 \<or> j = 5 \<or> j = 6"
      by (rule less_7_cases)
    from a \<open>j < 7\<close> have "i < 7" by simp
    then have i: "i = 0 \<or> i = 1 \<or> i = 2 \<or> i = 3 \<or> i = 4 \<or> i = 5 \<or> i = 6"
      by (rule less_7_cases)
    from a have "i \<le> j" by simp
    with i j show "glossy_roughness i \<le> glossy_roughness j"
      by (elim disjE) (simp_all add: glossy_roughness_values)
  qed
  show ?thesis
    using c1 c2 c3 c4 glossy_roughness_values by simp
qed

text \<open>
  Level 2 is in the loop and has the roughness \<open>6628037 / 2 ^ 29\<close>, within the fraction
  \<open>1 / 2 ^ 22\<close> of \<open>1 / 81\<close> and not above the roughness of level 5.
\<close>

theorem glossy_roughness_levels_witness:
  "int 2 < maxlevel - min_lod_level \<and> (2::nat) \<le> 5 \<and> int 5 < maxlevel - min_lod_level
   \<and> spec_roughness 2 = 1 / 81
   \<and> glossy_roughness 2 = 6628037 / 536870912
   \<and> \<bar>glossy_roughness 2 - spec_roughness 2\<bar> \<le> spec_roughness 2 / 2 ^ 22
   \<and> glossy_roughness 2 \<le> glossy_roughness 5"
  using glossy_roughness_levels [of 2 5]
  by (simp add: maxlevel_eq min_lod_level_def spec_roughness_values)

text \<open>
  C9, as amended. The sample count of the levels 0 to 4 is 1, 16, 32, 64, 128, it is 128 for
  every later level, and it does not decrease from a level to a later one.
\<close>

theorem glossy_samples_ct_levels:
  "glossy_samples_ct 0 = 1 \<and> glossy_samples_ct 1 = 16 \<and> glossy_samples_ct 2 = 32
   \<and> glossy_samples_ct 3 = 64 \<and> glossy_samples_ct 4 = 128
   \<and> (4 \<le> i \<longrightarrow> glossy_samples_ct i = 128)
   \<and> (j \<le> k \<longrightarrow> glossy_samples_ct j \<le> glossy_samples_ct k)"
  by (simp add: glossy_samples_ct_def)

text \<open>Level 6 has 128 samples, and level 2 has no more samples than level 5.\<close>

theorem glossy_samples_ct_levels_witness:
  "(4::nat) \<le> 6 \<and> glossy_samples_ct 6 = 128
   \<and> (2::nat) \<le> 5 \<and> glossy_samples_ct 2 \<le> glossy_samples_ct 5"
  using glossy_samples_ct_levels [of 6 2 5] by simp

text \<open>
  C9 as stated fails: the sample count is not decreasing, level 1 has more samples than
  level 0.
\<close>

theorem glossy_samples_ct_not_decreasing:
  "\<not> glossy_samples_ct 1 \<le> glossy_samples_ct 0"
  by (simp add: glossy_samples_ct_def)

subsection \<open>The scheduler\<close>

lemma tag_all_frame: "\<exists>pd. tag_all f sc s = s\<lparr>ped := pd\<rparr>"
  unfolding tag_all_def
proof (induction sc arbitrary: s)
  case Nil
  have "s = s\<lparr>ped := ped s\<rparr>" by simp
  then show ?case by (simp only: fold.simps id_apply) blast
next
  case (Cons a sc)
  obtain i ob where a: "a = (i, ob)" by (cases a)
  from Cons [of "ped_modify ob f s"] obtain pd
    where "fold (\<lambda>(i, ob). ped_modify ob f) sc (ped_modify ob f s) = (ped_modify ob f s)\<lparr>ped := pd\<rparr>"
    by blast
  then have "fold (\<lambda>(i, ob). ped_modify ob f) (a # sc) s = s\<lparr>ped := pd\<rparr>"
    by (simp add: a ped_modify_def)
  then show ?case by blast
qed

lemma tag_all_fields:
  "drw_log (tag_all f sc s) = drw_log s"
  "updated_bounce (tag_all f sc s) = updated_bounce s"
  "probes_grid_ref (tag_all f sc s) = probes_grid_ref s"
  "probes_cube_ref (tag_all f sc s) = probes_cube_ref s"
  "grid_data (tag_all f sc s) = grid_data s"
  "irradiance_pool (tag_all f sc s) = irradiance_pool s"
  "irradiance_rt (tag_all f sc s) = irradiance_rt s"
  "update_world (tag_all f sc s) = update_world s"
  "num_grid (tag_all f sc s) = num_grid s"
  "num_cube (tag_all f sc s) = num_cube s"
  "num_render_grid (tag_all f sc s) = num_render_grid s"
  "num_render_cube (tag_all f sc s) = num_render_cube s"
  "world_ready_to_shade (tag_all f sc s) = world_ready_to_shade s"
  "probe_pool (tag_all f sc s) = probe_pool s"
  "cache_num_cube (tag_all f sc s) = cache_num_cube s"
  "obs (tag_all f sc s) = obs s"
  "next_texture (tag_all f sc s) = next_texture s"
  using tag_all_frame [of f sc s] by auto

lemma tag_all_ped:
  assumes "\<And>p. f (f p) = f p"
  shows "ped (tag_all f sc s) ob = (if ob \<in> snd ` set sc then f (ped s ob) else ped s ob)"
  unfolding tag_all_def
proof (induction sc arbitrary: s)
  case Nil
  show ?case by simp
next
  case (Cons a sc)
  obtain i ob' where a: "a = (i, ob')" by (cases a)
  have "ped (fold (\<lambda>(i, ob). ped_modify ob f) sc (ped_modify ob' f s)) ob =
          (if ob \<in> snd ` set sc then f (ped (ped_modify ob' f s) ob)
           else ped (ped_modify ob' f s) ob)"
    by (rule Cons)
  moreover have "ped (ped_modify ob' f s) x = (if x = ob' then f (ped s x) else ped s x)" for x
    by (simp add: ped_modify_def)
  ultimately show ?case
    using assms by (simp add: a)
qed

lemma first_dirty_ped: "ped s = ped t \<Longrightarrow> first_dirty s sc = first_dirty t sc"
  by (simp add: first_dirty_def EEVEE_lightprobe_data_get_def)

lemma first_dirty_None:
  "first_dirty s sc = None \<longleftrightarrow> (\<forall>x \<in> set sc. \<not> need_update (ped s (snd x)))"
  by (auto simp: first_dirty_def EEVEE_lightprobe_data_get_def find_None_iff)

lemma first_dirty_Some:
  "first_dirty s sc = Some (i, ob) \<Longrightarrow> (i, ob) \<in> set sc \<and> need_update (ped s ob)"
  by (auto simp: first_dirty_def EEVEE_lightprobe_data_get_def find_Some_iff in_set_conv_nth)

lemma refresh_grid_cell_Inr:
  assumes "lightprobe_cell_location_get (grid_data s i) (updated_cells (ped s ob)) = Inr lc"
  shows "refresh_grid_cell i ob s = Inr (s\<lparr>
           specular_toggle := True, layer := 0,
           drw_log := drw_log s @ [Ev_scene_capture (Cell_pos i lc) ob,
                                   Ev_diffuse_pass (irradiance_pool s)
                                     (wrap32 (offset (grid_data s i) + updated_cells (ped s ob))),
                                   Ev_request_redraw],
           ped := (ped s)(ob := (ped s ob)\<lparr>
                     updated_cells := wrap32 (updated_cells (ped s ob) + 1),
                     need_update := need_update (ped s ob)
                        \<and> wrap32 (updated_cells (ped s ob) + 1) < num_cell (ped s ob)\<rparr>)\<rparr>)"
  using assms
  by (simp add: refresh_grid_cell_def Let_def EEVEE_lightprobe_data_get_def SWAP_irradiance_def
      render_scene_to_probe_def diffuse_filter_probe_def ped_modify_def DRW_viewport_request_redraw_def)

lemma first_dirty_not_None:
  "first_dirty s sc \<noteq> None \<longleftrightarrow> (\<exists>x \<in> set sc. need_update (ped s (snd x)))"
  by (simp add: first_dirty_None)

lemma refresh_grid_cell_Inl:
  assumes "lightprobe_cell_location_get (grid_data s i) (updated_cells (ped s ob)) = Inl e"
  shows "refresh_grid_cell i ob s = Inl e"
  using assms
  by (simp add: refresh_grid_cell_def Let_def EEVEE_lightprobe_data_get_def SWAP_irradiance_def)

lemma location_total:
  assumes "grid_divisible egrid"
  shows "\<exists>lc. lightprobe_cell_location_get egrid c = Inr lc"
proof -
  obtain res0 res1 res2 where r: "resolution egrid = (res0, res1, res2)"
    by (cases "resolution egrid") auto
  have p: "0 < res1" "0 < res2" "res2 * res1 < 2 ^ 31"
    using assms by (simp_all add: grid_divisible_def r)
  have "0 < res2 * res1" using p by simp
  then have w: "0 < wrap32 (res2 * res1)"
    using p(3) by (simp add: wrap32_id)
  show ?thesis
    using p w by (simp add: lightprobe_cell_location_get_def r Let_def int_div_pos int_mod_pos)
qed

lemma refresh_grid_cell_elim:
  assumes "refresh_grid_cell i ob s = Inr s'"
  obtains lc where "lightprobe_cell_location_get (grid_data s i) (updated_cells (ped s ob)) = Inr lc"
    and "s' = s\<lparr>
           specular_toggle := True, layer := 0,
           drw_log := drw_log s @ [Ev_scene_capture (Cell_pos i lc) ob,
                                   Ev_diffuse_pass (irradiance_pool s)
                                     (wrap32 (offset (grid_data s i) + updated_cells (ped s ob))),
                                   Ev_request_redraw],
           ped := (ped s)(ob := (ped s ob)\<lparr>
                     updated_cells := wrap32 (updated_cells (ped s ob) + 1),
                     need_update := need_update (ped s ob)
                        \<and> wrap32 (updated_cells (ped s ob) + 1) < num_cell (ped s ob)\<rparr>)\<rparr>"
proof (cases "lightprobe_cell_location_get (grid_data s i) (updated_cells (ped s ob))")
  case (Inl e)
  then show ?thesis using assms by (simp add: refresh_grid_cell_Inl)
next
  case (Inr lc)
  then show ?thesis using assms that [of lc] by (simp add: refresh_grid_cell_Inr)
qed

lemma glossy_levels: "[0..<7] = [0, 1, 2, 3, 4, 5, 6::nat]"
  by (simp add: upt_rec)

lemma ready_to_shade_same:
  "ready_to_shade p \<Longrightarrow> p\<lparr>ready_to_shade := True\<rparr> = (p::EEVEE_LightProbeEngineData)"
  by (cases p) simp

lemma refresh_cube_fields:
  "drw_log (refresh_cube i ob s) =
     drw_log s @ Ev_scene_capture (Object_pos ob) ob
        # map (Ev_glossy_pass i) [0, 1, 2, 3, 4, 5, 6] @ [Ev_request_redraw]"
  "ped (refresh_cube i ob s) =
     (ped s)(ob := (ped s ob)\<lparr>need_update := False, probe_id := i, ready_to_shade := True\<rparr>)"
  "num_render_cube (refresh_cube i ob s) =
     (if ready_to_shade (ped s ob) then num_render_cube s else num_render_cube s + 1)"
  "updated_bounce (refresh_cube i ob s) = updated_bounce s"
  "probes_grid_ref (refresh_cube i ob s) = probes_grid_ref s"
  "probes_cube_ref (refresh_cube i ob s) = probes_cube_ref s"
  "grid_data (refresh_cube i ob s) = grid_data s"
  "layer (refresh_cube i ob s) = i"
  "update_world (refresh_cube i ob s) = update_world s"
  by (simp_all add: refresh_cube_def Let_def EEVEE_lightprobe_data_get_def
      render_scene_to_probe_def glossy_filter_probe_def ped_modify_def DRW_viewport_request_redraw_def
      glossy_levels maxlevel_eq min_lod_level_def ready_to_shade_same)

lemma advance_bounce_fields:
  "drw_log (advance_bounce mg s) = drw_log s"
  "updated_bounce (advance_bounce mg s) = Suc (updated_bounce s)"
  "probes_grid_ref (advance_bounce mg s) = probes_grid_ref s"
  "probes_cube_ref (advance_bounce mg s) = probes_cube_ref s"
  "grid_data (advance_bounce mg s) = grid_data s"
  "update_world (advance_bounce mg s) = update_world s"
  by (simp_all add: advance_bounce_def Let_def SWAP_irradiance_def tag_all_fields)

lemma advance_bounce_need_update:
  "need_update (ped s x) \<Longrightarrow> need_update (ped (advance_bounce mg s) x)"
  by (simp add: advance_bounce_def Let_def SWAP_irradiance_def tag_all_ped)

lemma advance_bounce_last:
  "max_bounce \<le> Suc (updated_bounce s) \<Longrightarrow> ped (advance_bounce mg s) = ped s"
  by (simp add: advance_bounce_def Let_def)

lemma first_dirty_num_render_grid [simp]:
  "first_dirty (s\<lparr>num_render_grid := n\<rparr>) sc = first_dirty s sc"
  by (simp add: first_dirty_def EEVEE_lightprobe_data_get_def)

lemma refresh_bounces_unfold:
  "refresh_bounces mp mg s =
     (if updated_bounce s < max_bounce then
        (case first_dirty s (grid_scan mg s) of
           Some (i, ob) \<Rightarrow> refresh_grid_cell i ob (s\<lparr>num_render_grid := num_grid s\<rparr>)
         | None \<Rightarrow> refresh_bounces mp mg (advance_bounce mg (s\<lparr>num_render_grid := num_grid s\<rparr>)))
      else Inr (refresh_cubes mp s))"
  by (subst refresh_bounces.simps) (simp add: Let_def grid_scan_def)

lemma refresh_bounces_induct [consumes 1, case_names grid advance cubes]:
  assumes r: "refresh_bounces mp mg s = Inr s'"
    and grid: "\<And>s i ob. \<lbrakk>updated_bounce s < max_bounce;
                 first_dirty s (grid_scan mg s) = Some (i, ob);
                 refresh_grid_cell i ob (s\<lparr>num_render_grid := num_grid s\<rparr>) = Inr s'\<rbrakk> \<Longrightarrow> P s"
    and advance: "\<And>s. \<lbrakk>updated_bounce s < max_bounce;
                 first_dirty s (grid_scan mg s) = None;
                 refresh_bounces mp mg (advance_bounce mg (s\<lparr>num_render_grid := num_grid s\<rparr>)) = Inr s';
                 P (advance_bounce mg (s\<lparr>num_render_grid := num_grid s\<rparr>))\<rbrakk> \<Longrightarrow> P s"
    and cubes: "\<And>s. \<lbrakk>\<not> updated_bounce s < max_bounce; s' = refresh_cubes mp s\<rbrakk> \<Longrightarrow> P s"
  shows "P s"
  using r
proof (induction "max_bounce - updated_bounce s" arbitrary: s rule: less_induct)
  case less
  show ?case
  proof (cases "updated_bounce s < max_bounce")
    case False
    then have "s' = refresh_cubes mp s"
      using less.prems by (simp add: refresh_bounces_unfold)
    with False show ?thesis by (rule cubes)
  next
    case True
    show ?thesis
    proof (cases "first_dirty s (grid_scan mg s)")
      case None
      let ?a = "advance_bounce mg (s\<lparr>num_render_grid := num_grid s\<rparr>)"
      have r': "refresh_bounces mp mg ?a = Inr s'"
        using less.prems True None by (simp add: refresh_bounces_unfold)
      have "max_bounce - updated_bounce ?a < max_bounce - updated_bounce s"
        using True by (simp add: advance_bounce_fields)
      then have "P ?a" using r' by (rule less.hyps)
      with True None r' show ?thesis by (rule advance)
    next
      case (Some a)
      obtain i ob where a: "a = (i, ob)" by (cases a)
      have "refresh_grid_cell i ob (s\<lparr>num_render_grid := num_grid s\<rparr>) = Inr s'"
        using less.prems True Some a by (simp add: refresh_bounces_unfold)
      with True Some [unfolded a] show ?thesis by (rule grid)
    qed
  qed
qed

lemma grid_scan_simps [simp]:
  "grid_scan mg (s\<lparr>num_render_grid := n\<rparr>) = grid_scan mg s"
  "grid_scan mg (advance_bounce mg' s) = grid_scan mg s"
  "grid_scan mg (refresh_cube i ob s) = grid_scan mg s"
  by (simp_all add: grid_scan_def advance_bounce_fields refresh_cube_fields)

lemma cube_scan_simps [simp]:
  "cube_scan mp (s\<lparr>num_render_grid := n\<rparr>) = cube_scan mp s"
  "cube_scan mp (advance_bounce mg' s) = cube_scan mp s"
  "cube_scan mp (refresh_cube i ob s) = cube_scan mp s"
  by (simp_all add: cube_scan_def advance_bounce_fields refresh_cube_fields)

lemma bake_units_simps [simp]:
  "bake_units [] = 0"
  "bake_units (Ev_scene_capture pos ob # evs) = Suc (bake_units evs)"
  "bake_units (Ev_world_pass # evs) = bake_units evs"
  "bake_units (Ev_glossy_pass l i # evs) = bake_units evs"
  "bake_units (Ev_diffuse_pass tex c # evs) = bake_units evs"
  "bake_units (Ev_request_redraw # evs) = bake_units evs"
  "bake_units (Ev_printf str # evs) = bake_units evs"
  by (simp_all add: bake_units_def)

lemma refresh_cubes_log:
  "\<exists>d. drw_log (refresh_cubes mp s) = drw_log s @ d
       \<and> bake_units d = (if first_dirty s (cube_scan mp s) = None then 0 else 1)"
proof (cases "first_dirty s (cube_scan mp s)")
  case None
  then show ?thesis by (simp add: refresh_cubes_def cube_scan_def)
next
  case (Some a)
  obtain i ob where a: "a = (i, ob)" by (cases a)
  show ?thesis
    using Some by (simp add: a refresh_cubes_def cube_scan_def refresh_cube_fields)
qed

lemma bake_pending_iff:
  "bake_pending mp mg s \<longleftrightarrow>
     (updated_bounce s < max_bounce \<and> (\<exists>x \<in> set (grid_scan mg s). need_update (ped s (snd x))))
     \<or> (\<exists>x \<in> set (cube_scan mp s). need_update (ped s (snd x)))"
  unfolding bake_pending_def first_dirty_not_None by (rule refl)

lemma grids_clean_iff:
  "grids_clean mg s \<longleftrightarrow> (\<forall>x \<in> set (grid_scan mg s). \<not> need_update (ped s (snd x)))"
  unfolding grids_clean_def first_dirty_None by (rule refl)

lemma refresh_bounces_log:
  assumes "refresh_bounces mp mg s = Inr s'"
  shows "\<exists>d. drw_log s' = drw_log s @ d \<and> bake_units d \<le> 1
           \<and> (bake_pending mp mg s \<longrightarrow> bake_units d = 1)"
  using assms
proof (induction rule: refresh_bounces_induct)
  case (grid s i ob)
  from grid(3) show ?case
    by (rule refresh_grid_cell_elim) simp
next
  case (advance s)
  let ?a = "advance_bounce mg (s\<lparr>num_render_grid := num_grid s\<rparr>)"
  from advance(4) obtain d where d: "drw_log s' = drw_log ?a @ d" "bake_units d \<le> 1"
    "bake_pending mp mg ?a \<longrightarrow> bake_units d = 1" by blast
  have "bake_pending mp mg ?a" if "bake_pending mp mg s"
  proof -
    from advance(2) have "\<forall>x \<in> set (grid_scan mg s). \<not> need_update (ped s (snd x))"
      by (simp only: first_dirty_None)
    with that obtain x where x: "x \<in> set (cube_scan mp s)" "need_update (ped s (snd x))"
      unfolding bake_pending_iff by blast
    then have "need_update (ped ?a (snd x))"
      by (intro advance_bounce_need_update) simp
    with x(1) show ?thesis
      unfolding bake_pending_iff by (auto simp del: not_None_eq)
  qed
  with d show ?case by (auto simp: advance_bounce_fields)
next
  case (cubes s)
  obtain d where "drw_log (refresh_cubes mp s) = drw_log s @ d"
    "bake_units d = (if first_dirty s (cube_scan mp s) = None then 0 else 1)"
    using refresh_cubes_log by blast
  with cubes show ?case by (auto simp: bake_pending_def)
qed

lemma new_events_append: "drw_log s' = drw_log s @ d \<Longrightarrow> new_events s s' = d"
  by (simp add: new_events_def)

lemma new_events_same_log: "drw_log a = drw_log s \<Longrightarrow> new_events a s' = new_events s s'"
  by (simp add: new_events_def)

lemma refresh_bounces_total:
  assumes "grids_divisible mg s"
  shows "\<exists>s'. refresh_bounces mp mg s = Inr s'"
  using assms
proof (induction "max_bounce - updated_bounce s" arbitrary: s rule: less_induct)
  case less
  show ?case
  proof (cases "updated_bounce s < max_bounce")
    case False
    then show ?thesis by (simp add: refresh_bounces_unfold)
  next
    case True
    show ?thesis
    proof (cases "first_dirty s (grid_scan mg s)")
      case None
      let ?a = "advance_bounce mg (s\<lparr>num_render_grid := num_grid s\<rparr>)"
      have "max_bounce - updated_bounce ?a < max_bounce - updated_bounce s"
        using True by (simp add: advance_bounce_fields)
      moreover have "grids_divisible mg ?a"
        using less.prems by (simp add: grids_divisible_def advance_bounce_fields)
      ultimately have "\<exists>s'. refresh_bounces mp mg ?a = Inr s'"
        by (rule less.hyps)
      then show ?thesis
        using True None by (simp add: refresh_bounces_unfold)
    next
      case (Some a)
      obtain i ob where a: "a = (i, ob)" by (cases a)
      let ?s1 = "s\<lparr>num_render_grid := num_grid s\<rparr>"
      have "(i, ob) \<in> set (grid_scan mg s)"
        using Some a by (auto dest: first_dirty_Some)
      then have "grid_divisible (grid_data ?s1 i)"
        using less.prems by (auto simp: grids_divisible_def list_all_iff)
      then have "\<exists>lc. lightprobe_cell_location_get (grid_data ?s1 i)
                     (updated_cells (ped ?s1 ob)) = Inr lc"
        by (rule location_total)
      then obtain lc where
        "lightprobe_cell_location_get (grid_data ?s1 i) (updated_cells (ped ?s1 ob)) = Inr lc" ..
      then have "\<exists>s'. refresh_grid_cell i ob ?s1 = Inr s'"
        by (simp only: refresh_grid_cell_Inr) blast
      then show ?thesis
        using True Some a by (simp add: refresh_bounces_unfold)
    qed
  qed
qed

lemma refresh_world_fields:
  "drw_log (refresh_world s) =
     drw_log s @ Ev_world_pass # map (Ev_glossy_pass 0) [0, 1, 2, 3, 4, 5, 6]
       @ [Ev_diffuse_pass (irradiance_rt s) 0, Ev_diffuse_pass (irradiance_pool s) 0,
          Ev_request_redraw]"
  "irradiance_pool (refresh_world s) = irradiance_rt s"
  "irradiance_rt (refresh_world s) = irradiance_pool s"
  "update_world (refresh_world s) = False"
  "world_ready_to_shade (refresh_world s) = True"
  "num_render_cube (refresh_world s) = (if world_ready_to_shade s then num_render_cube s else 1)"
  "num_render_grid (refresh_world s) = (if world_ready_to_shade s then num_render_grid s else 1)"
  "ped (refresh_world s) = ped s"
  "updated_bounce (refresh_world s) = updated_bounce s"
  "probes_grid_ref (refresh_world s) = probes_grid_ref s"
  "probes_cube_ref (refresh_world s) = probes_cube_ref s"
  by (simp_all add: refresh_world_def Let_def render_world_to_probe_def glossy_filter_probe_def
      diffuse_filter_probe_def SWAP_irradiance_def DRW_viewport_request_redraw_def
      maxlevel_eq min_lod_level_def glossy_levels)

text \<open>
  C3. When the world is dirty at entry, the invocation returns normally and has appended
  to the log exactly: the world pass, the glossy passes of the seven levels into layer 0,
  a diffuse pass at cell 0 into the render target, a diffuse pass at cell 0 into what was
  the pool (the two irradiance textures are swapped in between, once), and the redraw
  request. The world flag is cleared, the world is ready to shade, the two rendered counts
  are 1 if the world was not ready before and unchanged otherwise; there is no bake unit
  and no bake state or bounce counter changes.
\<close>

theorem world_refresh:
  assumes "update_world s"
  shows "\<exists>s'. EEVEE_lightprobes_refresh max_probe max_grid draw_ctx s = Inr s'
     \<and> new_events s s' =
          Ev_world_pass # map (Ev_glossy_pass 0) [0, 1, 2, 3, 4, 5, 6]
            @ [Ev_diffuse_pass (irradiance_rt s) 0, Ev_diffuse_pass (irradiance_pool s) 0,
               Ev_request_redraw]
     \<and> irradiance_pool s' = irradiance_rt s \<and> irradiance_rt s' = irradiance_pool s
     \<and> \<not> update_world s' \<and> world_ready_to_shade s'
     \<and> (\<not> world_ready_to_shade s \<longrightarrow> num_render_cube s' = 1 \<and> num_render_grid s' = 1)
     \<and> (world_ready_to_shade s \<longrightarrow>
           num_render_cube s' = num_render_cube s \<and> num_render_grid s' = num_render_grid s)
     \<and> bake_units (new_events s s') = 0
     \<and> ped s' = ped s \<and> updated_bounce s' = updated_bounce s"
proof -
  have "EEVEE_lightprobes_refresh max_probe max_grid draw_ctx s = Inr (refresh_world s)"
    using assms by (simp add: EEVEE_lightprobes_refresh_def)
  moreover have "new_events s (refresh_world s) =
          Ev_world_pass # map (Ev_glossy_pass 0) [0, 1, 2, 3, 4, 5, 6]
            @ [Ev_diffuse_pass (irradiance_rt s) 0, Ev_diffuse_pass (irradiance_pool s) 0,
               Ev_request_redraw]"
    by (rule new_events_append) (simp add: refresh_world_fields)
  ultimately show ?thesis
    by (simp add: refresh_world_fields)
qed

text \<open>
  C1, as amended. An invocation that returns has performed at most one bake unit. With the
  world dirty it returns, paused or not, and has done exactly the world pass, the seven
  glossy passes into layer 0, the two diffuse passes at cell 0 and the redraw request, and
  no bake unit. With the world clean and baking paused it returns the state unchanged.
  With the world clean, baking not paused, work pending (\<open>bake_pending\<close>) and every scanned
  grid of positive y and z resolution whose product is an \<^verbatim>\<open>int\<close> (\<open>grids_divisible\<close>), it
  returns and has performed exactly one bake unit.
\<close>

theorem refresh_bake_units:
  "(\<forall>s'. EEVEE_lightprobes_refresh max_probe max_grid draw_ctx s = Inr s'
          \<longrightarrow> bake_units (new_events s s') \<le> 1)
   \<and> (update_world s \<longrightarrow>
        (\<exists>s'. EEVEE_lightprobes_refresh max_probe max_grid draw_ctx s = Inr s'
           \<and> new_events s s' =
                Ev_world_pass # map (Ev_glossy_pass 0) [0, 1, 2, 3, 4, 5, 6]
                  @ [Ev_diffuse_pass (irradiance_rt s) 0, Ev_diffuse_pass (irradiance_pool s) 0,
                     Ev_request_redraw]
           \<and> bake_units (new_events s s') = 0))
   \<and> (\<not> update_world s \<and> baking_paused draw_ctx \<longrightarrow>
        EEVEE_lightprobes_refresh max_probe max_grid draw_ctx s = Inr s)
   \<and> (\<not> update_world s \<and> \<not> baking_paused draw_ctx \<and> bake_pending max_probe max_grid s
        \<and> grids_divisible max_grid s \<longrightarrow>
        (\<exists>s'. EEVEE_lightprobes_refresh max_probe max_grid draw_ctx s = Inr s'
           \<and> bake_units (new_events s s') = 1))"
proof (intro conjI allI impI)
  fix s'
  assume r: "EEVEE_lightprobes_refresh max_probe max_grid draw_ctx s = Inr s'"
  show "bake_units (new_events s s') \<le> 1"
  proof (cases "update_world s")
    case True
    then have "s' = refresh_world s" using r by (simp add: EEVEE_lightprobes_refresh_def)
    then have "new_events s s' = Ev_world_pass # map (Ev_glossy_pass 0) [0, 1, 2, 3, 4, 5, 6]
            @ [Ev_diffuse_pass (irradiance_rt s) 0, Ev_diffuse_pass (irradiance_pool s) 0,
               Ev_request_redraw]"
      by (intro new_events_append) (simp add: refresh_world_fields)
    then show ?thesis by simp
  next
    case False
    show ?thesis
    proof (cases "baking_paused draw_ctx")
      case True
      then have "s' = s" using r False by (simp add: EEVEE_lightprobes_refresh_def)
      then show ?thesis by (simp add: new_events_def)
    next
      case np: False
      then have "refresh_bounces max_probe max_grid s = Inr s'"
        using r False by (simp add: EEVEE_lightprobes_refresh_def)
      then obtain d where "drw_log s' = drw_log s @ d" "bake_units d \<le> 1"
        using refresh_bounces_log by blast
      then show ?thesis by (simp add: new_events_append)
    qed
  qed
next
  assume w: "update_world s"
  have "new_events s (refresh_world s) = Ev_world_pass # map (Ev_glossy_pass 0) [0, 1, 2, 3, 4, 5, 6]
            @ [Ev_diffuse_pass (irradiance_rt s) 0, Ev_diffuse_pass (irradiance_pool s) 0,
               Ev_request_redraw]"
    by (intro new_events_append) (simp add: refresh_world_fields)
  then show "\<exists>s'. EEVEE_lightprobes_refresh max_probe max_grid draw_ctx s = Inr s'
           \<and> new_events s s' =
                Ev_world_pass # map (Ev_glossy_pass 0) [0, 1, 2, 3, 4, 5, 6]
                  @ [Ev_diffuse_pass (irradiance_rt s) 0, Ev_diffuse_pass (irradiance_pool s) 0,
                     Ev_request_redraw]
           \<and> bake_units (new_events s s') = 0"
    using w by (simp add: EEVEE_lightprobes_refresh_def)
next
  assume "\<not> update_world s \<and> baking_paused draw_ctx"
  then show "EEVEE_lightprobes_refresh max_probe max_grid draw_ctx s = Inr s"
    by (simp add: EEVEE_lightprobes_refresh_def)
next
  assume a: "\<not> update_world s \<and> \<not> baking_paused draw_ctx \<and> bake_pending max_probe max_grid s
        \<and> grids_divisible max_grid s"
  then obtain s' where s': "refresh_bounces max_probe max_grid s = Inr s'"
    using refresh_bounces_total by blast
  then obtain d where "drw_log s' = drw_log s @ d" "bake_units d = 1"
    using refresh_bounces_log a by blast
  then show "\<exists>s'. EEVEE_lightprobes_refresh max_probe max_grid draw_ctx s = Inr s'
           \<and> bake_units (new_events s s') = 1"
    using a s' by (simp add: EEVEE_lightprobes_refresh_def new_events_append)
qed

lemmas run_defs = probes_cache_def
  EEVEE_lightprobes_cache_init_def EEVEE_lightprobes_cache_add_def
  EEVEE_lightprobes_cache_finish_def cache_finish_probe_pool_def cache_finish_irradiance_pool_def
  cache_finish_irradiance_rt_def reset_grids_def EEVEE_lightprobes_updates_def DRW_texture_create_def
  tag_object_dirty_def ped_modify_def tag_all_def scan_refs.simps EEVEE_lightprobe_data_get_def
  refresh_world_def render_world_to_probe_def glossy_filter_probe_def
  diffuse_filter_probe_def SWAP_irradiance_def DRW_viewport_request_redraw_def
  zero_state_def zero_ped_def probe_object_def scene_7_9_def Let_def
  maxlevel_eq min_lod_level_def

lemma frame1_cached_eval:
  "update_world frame1_cached"
  "bake_pending 128 64 frame1_cached"
  by (simp_all add: frame1_cached_def bake_pending_def first_dirty_def grid_scan_def cube_scan_def
      max_bounce_def run_defs)

lemma frame2_cached_eval:
  "\<not> update_world frame2_cached"
  "bake_pending 128 64 frame2_cached"
  "grids_divisible 64 frame2_cached"
  by (simp_all add: frame2_cached_def frame1_cached_def bake_pending_def grids_divisible_def
      grid_divisible_def first_dirty_def grid_scan_def cube_scan_def max_bounce_def run_defs)

lemma frame1_cached_textures:
  "irradiance_pool frame1_cached = Some 1"
  "irradiance_rt frame1_cached = Some 2"
  "world_ready_to_shade frame1_cached = False"
  by (simp_all add: frame1_cached_def run_defs)

text \<open>
  The second frame of the example scene bakes one unit when idle and nothing when
  navigating; the first frame renders and filters the world even when navigating.
\<close>

theorem refresh_bake_units_witness:
  "\<not> update_world frame2_cached \<and> \<not> baking_paused ctx_idle
   \<and> bake_pending 128 64 frame2_cached \<and> grids_divisible 64 frame2_cached
   \<and> (\<exists>s'. EEVEE_lightprobes_refresh 128 64 ctx_idle frame2_cached = Inr s'
          \<and> bake_units (new_events frame2_cached s') = 1)
   \<and> baking_paused ctx_navigating
   \<and> EEVEE_lightprobes_refresh 128 64 ctx_navigating frame2_cached = Inr frame2_cached
   \<and> update_world frame1_cached
   \<and> (\<exists>s'. EEVEE_lightprobes_refresh 128 64 ctx_navigating frame1_cached = Inr s'
          \<and> new_events frame1_cached s' =
               Ev_world_pass # map (Ev_glossy_pass 0) [0, 1, 2, 3, 4, 5, 6]
                 @ [Ev_diffuse_pass (Some 2) 0, Ev_diffuse_pass (Some 1) 0, Ev_request_redraw]
          \<and> bake_units (new_events frame1_cached s') = 0)"
  using refresh_bake_units [of 128 64 ctx_idle frame2_cached]
    refresh_bake_units [of 128 64 ctx_navigating frame2_cached]
    refresh_bake_units [of 128 64 ctx_navigating frame1_cached]
    frame1_cached_eval frame2_cached_eval frame1_cached_textures
  by (simp add: baking_paused_def ctx_idle_def ctx_navigating_def)

text \<open>
  C1 as stated fails in the first frame of the example scene: the grid and the cube probe
  need an update and baking is not paused, yet no bake unit is performed, because the
  world is rendered first; and the world is rendered and filtered also while navigating.
\<close>

theorem world_first_counterexample:
  "update_world frame1_cached \<and> bake_pending 128 64 frame1_cached
   \<and> \<not> baking_paused ctx_idle
   \<and> EEVEE_lightprobes_refresh 128 64 ctx_idle frame1_cached = Inr (refresh_world frame1_cached)
   \<and> bake_units (new_events frame1_cached (refresh_world frame1_cached)) = 0
   \<and> baking_paused ctx_navigating
   \<and> EEVEE_lightprobes_refresh 128 64 ctx_navigating frame1_cached
        = Inr (refresh_world frame1_cached)
   \<and> Ev_world_pass \<in> set (new_events frame1_cached (refresh_world frame1_cached))"
proof -
  have "new_events frame1_cached (refresh_world frame1_cached) =
          Ev_world_pass # map (Ev_glossy_pass 0) [0, 1, 2, 3, 4, 5, 6]
            @ [Ev_diffuse_pass (irradiance_rt frame1_cached) 0,
               Ev_diffuse_pass (irradiance_pool frame1_cached) 0, Ev_request_redraw]"
    by (rule new_events_append) (simp add: refresh_world_fields)
  then show ?thesis
    using frame1_cached_eval
    by (simp add: EEVEE_lightprobes_refresh_def baking_paused_def ctx_idle_def ctx_navigating_def)
qed

text \<open>The first frame of the example scene: the world is dirty and is rendered.\<close>

theorem world_refresh_witness:
  "update_world frame1_cached
   \<and> (\<exists>s'. EEVEE_lightprobes_refresh 128 64 ctx_idle frame1_cached = Inr s'
     \<and> new_events frame1_cached s' =
          Ev_world_pass # map (Ev_glossy_pass 0) [0, 1, 2, 3, 4, 5, 6]
            @ [Ev_diffuse_pass (Some 2) 0, Ev_diffuse_pass (Some 1) 0, Ev_request_redraw]
     \<and> irradiance_pool s' = Some 2 \<and> irradiance_rt s' = Some 1
     \<and> \<not> update_world s' \<and> world_ready_to_shade s'
     \<and> num_render_cube s' = 1 \<and> num_render_grid s' = 1)"
  using world_refresh [of frame1_cached 128 64 ctx_idle] frame1_cached_eval frame1_cached_textures
  by auto

lemma refresh_cubes_need_update:
  "need_update (ped (refresh_cubes mp s) x) \<Longrightarrow> need_update (ped s x)"
  by (auto simp: refresh_cubes_def refresh_cube_fields split: option.splits if_splits)

lemma refresh_cubes_fields:
  "updated_bounce (refresh_cubes mp s) = updated_bounce s"
  "probes_grid_ref (refresh_cubes mp s) = probes_grid_ref s"
  by (auto simp: refresh_cubes_def refresh_cube_fields split: option.splits)

lemma refresh_cubes_unfold:
  "refresh_cubes mp s =
     (case first_dirty s (cube_scan mp s) of Some (i, ob) \<Rightarrow> refresh_cube i ob s | None \<Rightarrow> s)"
  by (simp add: refresh_cubes_def cube_scan_def)

lemma refresh_bounces_cube_capture:
  assumes "refresh_bounces mp mg s = Inr s'"
  shows "(\<exists>ev \<in> set (new_events s s'). is_cube_capture ev)
         \<longrightarrow> (\<exists>t i ob. first_dirty t (cube_scan mp t) = Some (i, ob)
                \<and> s' = refresh_cube i ob t
                \<and> max_bounce \<le> updated_bounce t
                \<and> (updated_bounce s < max_bounce \<or> grids_clean mg s \<longrightarrow> grids_clean mg t))"
  using assms
proof (induction rule: refresh_bounces_induct)
  case (grid s i ob)
  from grid(3) have "new_events s s' = new_events (s\<lparr>num_render_grid := num_grid s\<rparr>) s'"
    by (simp add: new_events_def)
  also from grid(3) have "\<dots> = cell_unit_events i ob (grid_data s i) (irradiance_pool s)
                                  (updated_cells (ped s ob))"
    by (rule refresh_grid_cell_elim) (simp add: new_events_def cell_unit_events_def)
  finally show ?case
    by (auto simp: cell_unit_events_def split: sum.splits)
next
  case (advance s)
  let ?a = "advance_bounce mg (s\<lparr>num_render_grid := num_grid s\<rparr>)"
  have ev: "new_events ?a s' = new_events s s'"
    by (rule new_events_same_log) (simp add: advance_bounce_fields)
  have "grids_clean mg ?a" if "\<not> updated_bounce ?a < max_bounce"
  proof -
    have "ped ?a = ped s"
      using that by (simp add: advance_bounce_last advance_bounce_fields)
    then show ?thesis
      using advance(2) by (simp add: grids_clean_def first_dirty_ped [of ?a s])
  qed
  with advance(4) show ?case
    unfolding ev by blast
next
  case (cubes s)
  show ?case
  proof
    assume c: "\<exists>ev \<in> set (new_events s s'). is_cube_capture ev"
    have "first_dirty s (cube_scan mp s) \<noteq> None"
    proof
      assume "first_dirty s (cube_scan mp s) = None"
      then have "s' = s" using cubes(2) by (simp add: refresh_cubes_unfold)
      with c show False by (simp add: new_events_def)
    qed
    then obtain i ob where f: "first_dirty s (cube_scan mp s) = Some (i, ob)" by auto
    then have "s' = refresh_cube i ob s"
      using cubes(2) by (simp add: refresh_cubes_unfold)
    with f cubes(1) show "\<exists>t i ob. first_dirty t (cube_scan mp t) = Some (i, ob)
                \<and> s' = refresh_cube i ob t
                \<and> max_bounce \<le> updated_bounce t
                \<and> (updated_bounce s < max_bounce \<or> grids_clean mg s \<longrightarrow> grids_clean mg t)"
      by (intro exI [of _ s] exI [of _ i] exI [of _ ob]) simp
  qed
qed

lemma refresh_bounces_counter:
  assumes "refresh_bounces mp mg s = Inr s'"
  shows "updated_bounce s \<le> updated_bounce s'
         \<and> (updated_bounce s < updated_bounce s' \<longrightarrow> grids_clean mg s)"
  using assms
proof (induction rule: refresh_bounces_induct)
  case (grid s i ob)
  from grid(3) show ?case
    by (rule refresh_grid_cell_elim) simp
next
  case (advance s)
  then show ?case
    by (simp add: advance_bounce_fields grids_clean_def)
next
  case (cubes s)
  then show ?case
    by (simp add: refresh_cubes_fields)
qed

text \<open>
  What the scheduler guarantees about the cube probes. When an invocation captures a cube
  probe, it does so in a state \<open>t\<close> in which the bounce counter has reached the limit; and
  if at entry of the invocation the counter was below the limit, or no scanned grid needed
  an update, then no scanned grid needs an update in \<open>t\<close>. The counter advances only in an
  invocation at whose entry no scanned grid needs an update.
\<close>

lemma cube_capture_after_bounces:
  assumes "EEVEE_lightprobes_refresh max_probe max_grid draw_ctx s = Inr s'"
  shows "((\<exists>ev \<in> set (new_events s s'). is_cube_capture ev)
           \<longrightarrow> (\<exists>t i ob. first_dirty t (cube_scan max_probe t) = Some (i, ob)
                  \<and> s' = refresh_cube i ob t
                  \<and> max_bounce \<le> updated_bounce t
                  \<and> (updated_bounce s < max_bounce \<or> grids_clean max_grid s
                       \<longrightarrow> grids_clean max_grid t)))
       \<and> (updated_bounce s < updated_bounce s' \<longrightarrow> grids_clean max_grid s)"
proof (cases "update_world s")
  case True
  then have s': "s' = refresh_world s"
    using assms by (simp add: EEVEE_lightprobes_refresh_def)
  have "new_events s (refresh_world s) =
          Ev_world_pass # map (Ev_glossy_pass 0) [0, 1, 2, 3, 4, 5, 6]
            @ [Ev_diffuse_pass (irradiance_rt s) 0, Ev_diffuse_pass (irradiance_pool s) 0,
               Ev_request_redraw]"
    by (rule new_events_append) (simp add: refresh_world_fields)
  then show ?thesis
    by (simp add: s' refresh_world_fields)
next
  case False
  show ?thesis
  proof (cases "baking_paused draw_ctx")
    case True
    then have "s' = s"
      using assms False by (simp add: EEVEE_lightprobes_refresh_def)
    then show ?thesis by (simp add: new_events_def)
  next
    case np: False
    then have r: "refresh_bounces max_probe max_grid s = Inr s'"
      using assms False by (simp add: EEVEE_lightprobes_refresh_def)
    show ?thesis
      using refresh_bounces_cube_capture [OF r] refresh_bounces_counter [OF r] by blast
  qed
qed

lemmas refresh_defs = EEVEE_lightprobes_refresh_def baking_paused_def ctx_idle_def
  refresh_bounces.simps advance_bounce_def refresh_cubes_def refresh_cube_def first_dirty_def
  render_scene_to_probe_def max_bounce_def

lemma frame2_no_grid_refresh:
  "EEVEE_lightprobes_refresh 128 64 ctx_idle frame2_no_grid = Inr frame2_done"
  by (simp add: frame2_done_def frame2_no_grid_def frame1_cached_def refresh_defs run_defs)

lemma frame2_done_eval:
  "updated_bounce frame2_done = 3"
  "probe_pool frame2_done = Some 0"
  by (simp_all add: frame2_done_def frame2_no_grid_def frame1_cached_def refresh_defs run_defs)

lemma frame5_both_eval:
  "update_world frame3_no_cube"
  "update_world frame4_both"
  "\<not> update_world frame5_both"
  "updated_bounce frame5_both = 3"
  "probes_grid_ref frame5_both 1 = Some 7"
  "probes_cube_ref frame5_both 1 = Some 9"
  "need_update (ped frame5_both 7)"
  "grid_scan 64 frame5_both = [(1, 7)]"
  "cube_scan 128 frame5_both = [(1, 9)]"
  "need_update (ped frame5_both 9)"
  by (simp_all add: frame5_both_def frame4_both_def frame3_no_cube_def frame2_done_def
      frame2_no_grid_def frame1_cached_def grid_scan_def cube_scan_def refresh_defs run_defs)

text \<open>
  C2. The claim fails in the code, which contradicts its own comment at line 818
  (reflection probes depend on the irradiance grids). In the run in which the grid 7 is
  hidden in the second frame, the cube probe 9 in the third, and both are shown again,
  untagged, in the fourth and the fifth, the fifth invocation finds the bounce counter at
  the limit and the grid 7 registered and in need of its update; it captures and filters
  the cube probe 9 and leaves the grid as it was. The invocation after it changes nothing:
  the grid is not baked.
\<close>

theorem cube_captured_with_dirty_grid:
  "EEVEE_lightprobes_refresh 128 64 ctx_idle frame2_no_grid = Inr frame2_done
   \<and> update_world frame3_no_cube \<and> update_world frame4_both
   \<and> \<not> update_world frame5_both \<and> \<not> baking_paused ctx_idle
   \<and> updated_bounce frame5_both = 3
   \<and> grid_scan 64 frame5_both = [(1, 7)] \<and> need_update (ped frame5_both 7)
   \<and> EEVEE_lightprobes_refresh 128 64 ctx_idle frame5_both = Inr (refresh_cube 1 9 frame5_both)
   \<and> new_events frame5_both (refresh_cube 1 9 frame5_both)
        = Ev_scene_capture (Object_pos 9) 9 # map (Ev_glossy_pass 1) [0, 1, 2, 3, 4, 5, 6]
            @ [Ev_request_redraw]
   \<and> need_update (ped (refresh_cube 1 9 frame5_both) 7)
   \<and> \<not> grids_clean 64 (refresh_cube 1 9 frame5_both)
   \<and> EEVEE_lightprobes_refresh 128 64 ctx_idle (refresh_cube 1 9 frame5_both)
        = Inr (refresh_cube 1 9 frame5_both)"
proof -
  have r: "EEVEE_lightprobes_refresh 128 64 ctx_idle frame5_both = Inr (refresh_cube 1 9 frame5_both)"
    using frame5_both_eval
    by (simp add: EEVEE_lightprobes_refresh_def baking_paused_def ctx_idle_def
        refresh_bounces_unfold max_bounce_def refresh_cubes_unfold
        first_dirty_def EEVEE_lightprobe_data_get_def)
  have e: "new_events frame5_both (refresh_cube 1 9 frame5_both)
        = Ev_scene_capture (Object_pos 9) 9 # map (Ev_glossy_pass 1) [0, 1, 2, 3, 4, 5, 6]
            @ [Ev_request_redraw]"
    by (rule new_events_append) (simp add: refresh_cube_fields)
  have n: "need_update (ped (refresh_cube 1 9 frame5_both) 7)"
    using frame5_both_eval by (simp add: refresh_cube_fields)
  have g: "\<not> grids_clean 64 (refresh_cube 1 9 frame5_both)"
    using n frame5_both_eval by (simp add: grids_clean_iff)
  have i: "EEVEE_lightprobes_refresh 128 64 ctx_idle (refresh_cube 1 9 frame5_both)
        = Inr (refresh_cube 1 9 frame5_both)"
    using frame5_both_eval
    by (simp add: EEVEE_lightprobes_refresh_def baking_paused_def ctx_idle_def
        refresh_bounces_unfold max_bounce_def refresh_cubes_unfold refresh_cube_fields
        first_dirty_def EEVEE_lightprobe_data_get_def)
  show ?thesis
    using r e n g i frame5_both_eval frame2_no_grid_refresh
    by (simp add: baking_paused_def ctx_idle_def)
qed







subsection \<open>The registry\<close>

lemma frame3_tagged_eval:
  "updated_bounce frame3_tagged = 0"
  "probe_pool frame3_tagged = Some 0"
  "EEVEE_lightprobes_refresh 128 64 ctx_idle frame3_tagged = Inr frame3_tagged_done"
  "updated_bounce frame3_tagged_done = 3"
  "probe_pool frame3_tagged_done = Some 0"
  "updated_bounce frame4_tagged_add = 0"
  "probe_pool frame4_tagged_add = Some 0"
  "deg_runtime_data_update (obs frame4_tagged_add 9)"
  by (simp_all add: frame4_tagged_add_def frame3_tagged_done_def frame3_tagged_def
      frame2_done_def frame2_no_grid_def frame1_cached_def refresh_defs run_defs)

lemmas grid_cell_defs = refresh_grid_cell_def lightprobe_cell_location_get_def
  int_div_def int_mod_def wrap32_def signed_divide_int_def signed_modulo_int_def

lemma frame2_baked3_eval:
  "refresh_frames 3 128 64 ctx_idle frame2_cached = Inr frame2_baked3"
  "updated_cells (ped frame2_baked3 7) = 3"
  by (simp_all add: frame2_baked3_def frame2_cached_def frame1_cached_def 
      eval_nat_numeral grid_cell_defs refresh_defs run_defs)

lemma cube_hidden_eval:
  "num_cube cube_hidden_added = 1"
  "cache_num_cube cube_hidden_added = 2"
  "probes_grid_ref cube_hidden_added 1 = Some 7"
  "probe_pool cube_hidden_added = Some 0"
  "probe_pool (EEVEE_lightprobes_cache_finish 128 64 cube_hidden_added) = Some 3"
  "updated_cells (ped (EEVEE_lightprobes_cache_finish 128 64 cube_hidden_added) 7) = 3"
  "update_world (EEVEE_lightprobes_cache_finish 128 64 cube_hidden_added)"
  by (simp_all add: cube_hidden_added_def frame2_baked3_def frame2_cached_def frame1_cached_def 
      eval_nat_numeral grid_cell_defs refresh_defs run_defs)

lemma scan_refs_bound: "(i, ob) \<in> set (scan_refs max_n refs j) \<Longrightarrow> i < max_n"
proof (induction max_n refs j rule: scan_refs.induct)
  case (1 max_n refs j)
  show ?case
  proof (cases "refs j")
    case None
    then show ?thesis using "1.prems" by (simp add: scan_refs.simps [of max_n refs j])
  next
    case (Some ob')
    show ?thesis
    proof (cases "j < max_n")
      case True
      then have "(i, ob) = (j, ob') \<or> (i, ob) \<in> set (scan_refs max_n refs (Suc j))"
        using "1.prems" Some by (simp add: scan_refs.simps [of max_n refs j])
      then show ?thesis
        using True "1.IH" [OF Some True] by auto
    next
      case False
      then show ?thesis using "1.prems" Some by (simp add: scan_refs.simps [of max_n refs j])
    qed
  qed
qed

lemma cache_add_rejected:
  "rejected mp ob s \<Longrightarrow>
   EEVEE_lightprobes_cache_add mp ob s = s\<lparr>drw_log := drw_log s @ [Ev_printf too_much_probes]\<rparr>"
  by (auto simp: EEVEE_lightprobes_cache_add_def rejected_def Let_def)

lemma tag_object_dirty_fields:
  "ped (tag_object_dirty ob s) =
     (ped s)(ob := (ped s ob)\<lparr>need_update := True, updated_cells := 0, probe_id := 0\<rparr>)"
  "updated_bounce (tag_object_dirty ob s) = 0"
  "obs (tag_object_dirty ob s) = obs s"
  "update_world (tag_object_dirty ob s) = update_world s"
  "num_cube (tag_object_dirty ob s) = num_cube s"
  "num_grid (tag_object_dirty ob s) = num_grid s"
  "probes_cube_ref (tag_object_dirty ob s) = probes_cube_ref s"
  "probes_grid_ref (tag_object_dirty ob s) = probes_grid_ref s"
  "drw_log (tag_object_dirty ob s) = drw_log s"
  by (simp_all add: tag_object_dirty_def ped_modify_def)

lemma cache_add_accepted:
  assumes "\<not> rejected mp ob s"
  shows "ped (EEVEE_lightprobes_cache_add mp ob s) =
           (ped s)(ob := (if deg_runtime_data_update (obs s ob) \<or> update_world s
              then (ped s ob)\<lparr>num_cell :=
                       wrap32 (wrap32 (grid_resolution_x (data (obs s ob))
                                 * grid_resolution_y (data (obs s ob)))
                               * grid_resolution_z (data (obs s ob))),
                     need_update := True, updated_cells := 0, probe_id := 0\<rparr>
              else (ped s ob)\<lparr>num_cell :=
                       wrap32 (wrap32 (grid_resolution_x (data (obs s ob))
                                 * grid_resolution_y (data (obs s ob)))
                               * grid_resolution_z (data (obs s ob)))\<rparr>))"
    and "updated_bounce (EEVEE_lightprobes_cache_add mp ob s) =
           (if deg_runtime_data_update (obs s ob) \<or> update_world s then 0 else updated_bounce s)"
    and "drw_log (EEVEE_lightprobes_cache_add mp ob s) = drw_log s"
    and "probes_cube_ref (EEVEE_lightprobes_cache_add mp ob s) =
           (if probe_type (data (obs s ob)) = LIGHTPROBE_TYPE_CUBE
            then (probes_cube_ref s)(num_cube s := Some ob) else probes_cube_ref s)"
    and "num_cube (EEVEE_lightprobes_cache_add mp ob s) =
           (if probe_type (data (obs s ob)) = LIGHTPROBE_TYPE_CUBE
            then num_cube s + 1 else num_cube s)"
    and "probes_grid_ref (EEVEE_lightprobes_cache_add mp ob s) =
           (if probe_type (data (obs s ob)) = LIGHTPROBE_TYPE_CUBE
            then probes_grid_ref s else (probes_grid_ref s)(num_grid s := Some ob))"
    and "num_grid (EEVEE_lightprobes_cache_add mp ob s) =
           (if probe_type (data (obs s ob)) = LIGHTPROBE_TYPE_CUBE
            then num_grid s else num_grid s + 1)"
  using assms
  by (auto simp: EEVEE_lightprobes_cache_add_def rejected_def Let_def tag_object_dirty_fields
      ped_modify_def)

lemma cache_add_obs: "obs (EEVEE_lightprobes_cache_add mp ob s) = obs s"
  by (simp add: EEVEE_lightprobes_cache_add_def Let_def tag_object_dirty_def ped_modify_def)

lemma fold_cache_add_grids:
  assumes "\<forall>ob. probe_type (data (obs s ob)) = LIGHTPROBE_TYPE_GRID"
    and "num_grid s + length xs \<le> mp"
  shows "num_grid (fold (EEVEE_lightprobes_cache_add mp) xs s) = num_grid s + length xs
       \<and> drw_log (fold (EEVEE_lightprobes_cache_add mp) xs s) = drw_log s
       \<and> obs (fold (EEVEE_lightprobes_cache_add mp) xs s) = obs s"
  using assms
proof (induction xs arbitrary: s)
  case Nil
  then show ?case by simp
next
  case (Cons x xs)
  have nr: "\<not> rejected mp x s"
    using Cons.prems by (simp add: rejected_def)
  have "num_grid (fold (EEVEE_lightprobes_cache_add mp) xs (EEVEE_lightprobes_cache_add mp x s))
          = num_grid (EEVEE_lightprobes_cache_add mp x s) + length xs
       \<and> drw_log (fold (EEVEE_lightprobes_cache_add mp) xs (EEVEE_lightprobes_cache_add mp x s))
          = drw_log (EEVEE_lightprobes_cache_add mp x s)
       \<and> obs (fold (EEVEE_lightprobes_cache_add mp) xs (EEVEE_lightprobes_cache_add mp x s))
          = obs (EEVEE_lightprobes_cache_add mp x s)"
    using Cons.prems by (intro Cons.IH) (simp_all add: cache_add_obs cache_add_accepted [OF nr])
  then show ?case
    using Cons.prems by (simp add: cache_add_obs cache_add_accepted [OF nr])
qed

lemma sixty_three_grids_eval:
  "num_grid sixty_three_grids = 64"
  "drw_log sixty_three_grids = []"
  "obs sixty_three_grids = scene_grids"
proof -
  let ?s = "EEVEE_lightprobes_cache_init None (zero_state\<lparr>obs := scene_grids\<rparr>)"
  have "\<forall>ob. probe_type (data (obs ?s ob)) = LIGHTPROBE_TYPE_GRID"
    by (simp add: EEVEE_lightprobes_cache_init_def scene_grids_def probe_object_def)
  moreover have "num_grid ?s + length [1..<64::nat] \<le> 128"
    by (simp add: EEVEE_lightprobes_cache_init_def)
  ultimately have "num_grid (fold (EEVEE_lightprobes_cache_add 128) [1..<64] ?s)
            = num_grid ?s + length [1..<64::nat]
       \<and> drw_log (fold (EEVEE_lightprobes_cache_add 128) [1..<64] ?s) = drw_log ?s
       \<and> obs (fold (EEVEE_lightprobes_cache_add 128) [1..<64] ?s) = obs ?s"
    by (rule fold_cache_add_grids)
  then show "num_grid sixty_three_grids = 64" "drw_log sixty_three_grids = []"
    "obs sixty_three_grids = scene_grids"
    by (simp_all add: sixty_three_grids_def EEVEE_lightprobes_cache_init_def zero_state_def)
qed

text \<open>
  C7. With \<^verbatim>\<open>MAX_PROBE\<close> = 128 and \<^verbatim>\<open>MAX_GRID\<close> = 64: after 63 grids have been registered
  the grid count is 64, yet one more grid is accepted without a diagnostic, since the test
  compares the grid count with \<^verbatim>\<open>MAX_PROBE\<close>; it is stored in slot 64, which no scan of the
  grids visits.
\<close>

theorem cache_add_grid_capacity:
  "num_grid sixty_three_grids = 64
   \<and> probe_type (data (obs sixty_three_grids 64)) = LIGHTPROBE_TYPE_GRID
   \<and> num_grid (EEVEE_lightprobes_cache_add 128 64 sixty_three_grids) = 65
   \<and> probes_grid_ref (EEVEE_lightprobes_cache_add 128 64 sixty_three_grids) 64 = Some 64
   \<and> drw_log (EEVEE_lightprobes_cache_add 128 64 sixty_three_grids) = []
   \<and> (64, 64) \<notin> set (grid_scan 64 (EEVEE_lightprobes_cache_add 128 64 sixty_three_grids))"
proof -
  have ty: "probe_type (data (obs sixty_three_grids 64)) = LIGHTPROBE_TYPE_GRID"
    by (simp add: sixty_three_grids_eval scene_grids_def probe_object_def)
  have nr: "\<not> rejected 128 64 sixty_three_grids"
    using ty by (simp add: rejected_def sixty_three_grids_eval)
  have "(64, 64) \<notin> set (grid_scan 64 (EEVEE_lightprobes_cache_add 128 64 sixty_three_grids))"
    using scan_refs_bound [of 64 64 64] by (auto simp: grid_scan_def)
  then show ?thesis
    using ty by (simp add: cache_add_accepted [OF nr] sixty_three_grids_eval)
qed

text \<open>
  C6, as amended. For an object that \<^verbatim>\<open>cache_add\<close> does not skip: if the object is tagged
  or the world flag is set, its bake state needs an update, its cell counter and probe id
  are zero, and the bounce counter is zero, on every such call; otherwise these four are
  unchanged.
\<close>

theorem cache_add_dirty:
  assumes "\<not> rejected max_probe ob s"
  shows "(deg_runtime_data_update (obs s ob) \<or> update_world s \<longrightarrow>
            need_update (ped (EEVEE_lightprobes_cache_add max_probe ob s) ob)
          \<and> updated_cells (ped (EEVEE_lightprobes_cache_add max_probe ob s) ob) = 0
          \<and> probe_id (ped (EEVEE_lightprobes_cache_add max_probe ob s) ob) = 0
          \<and> updated_bounce (EEVEE_lightprobes_cache_add max_probe ob s) = 0)
       \<and> (\<not> deg_runtime_data_update (obs s ob) \<and> \<not> update_world s \<longrightarrow>
            need_update (ped (EEVEE_lightprobes_cache_add max_probe ob s) ob) = need_update (ped s ob)
          \<and> updated_cells (ped (EEVEE_lightprobes_cache_add max_probe ob s) ob)
              = updated_cells (ped s ob)
          \<and> probe_id (ped (EEVEE_lightprobes_cache_add max_probe ob s) ob) = probe_id (ped s ob)
          \<and> updated_bounce (EEVEE_lightprobes_cache_add max_probe ob s) = updated_bounce s)"
  by (simp add: cache_add_accepted [OF assms])

lemma update_grids_frame: "\<exists>gd. update_grids sc offs s = s\<lparr>grid_data := gd\<rparr>"
proof (induction sc arbitrary: offs s)
  case Nil
  have "s = s\<lparr>grid_data := grid_data s\<rparr>" by simp
  then show ?case by (simp only: update_grids.simps) blast
next
  case (Cons a sc)
  obtain i ob where a: "a = (i, ob)" by (cases a)
  show ?case
    using Cons [of "wrap32 (offs + num_cell (EEVEE_lightprobe_data_get s ob))"
        "s\<lparr>grid_data := (grid_data s)(i := \<lparr>offset = offs,
              resolution = (grid_resolution_x (data (obs s ob)),
                            grid_resolution_y (data (obs s ob)),
                            grid_resolution_z (data (obs s ob)))\<rparr>)\<rparr>"]
    by (auto simp: a Let_def)
qed

lemma updates_fields:
  "ped (EEVEE_lightprobes_updates mg s) = ped s"
  "probe_pool (EEVEE_lightprobes_updates mg s) = probe_pool s"
  "cache_num_cube (EEVEE_lightprobes_updates mg s) = cache_num_cube s"
  "update_world (EEVEE_lightprobes_updates mg s) = update_world s"
  "world_ready_to_shade (EEVEE_lightprobes_updates mg s) = world_ready_to_shade s"
  "num_render_cube (EEVEE_lightprobes_updates mg s) = num_render_cube s"
  "num_render_grid (EEVEE_lightprobes_updates mg s) = num_render_grid s"
  "updated_bounce (EEVEE_lightprobes_updates mg s) = updated_bounce s"
  using update_grids_frame [of "scan_refs mg (probes_grid_ref s) 1" 1 s]
  by (auto simp: EEVEE_lightprobes_updates_def)

lemma reset_grids_fields:
  "ped (reset_grids mp s) ob =
     (if ob \<in> snd ` set (scan_refs mp (probes_grid_ref s) 1)
      then (ped s ob)\<lparr>need_update := True, updated_cells := 0\<rparr> else ped s ob)"
  "probe_pool (reset_grids mp s) = probe_pool s"
  "cache_num_cube (reset_grids mp s) = cache_num_cube s"
  "update_world (reset_grids mp s) = update_world s"
  "world_ready_to_shade (reset_grids mp s) = world_ready_to_shade s"
  "num_render_cube (reset_grids mp s) = num_render_cube s"
  "num_render_grid (reset_grids mp s) = 0"
  "updated_bounce (reset_grids mp s) = 0"
  "probes_grid_ref (reset_grids mp s) = probes_grid_ref s"
  "irradiance_pool (reset_grids mp s) = irradiance_pool s"
  "irradiance_rt (reset_grids mp s) = irradiance_rt s"
  "next_texture (reset_grids mp s) = next_texture s"
  by (simp_all add: reset_grids_def Let_def tag_all_fields tag_all_ped)

lemma cache_finish_probe_pool_realloc:
  assumes "num_cube s \<noteq> cache_num_cube s \<or> probe_pool s = None"
  shows "ped (cache_finish_probe_pool mp s) ob =
     (if ob \<in> snd ` set (cube_scan mp s)
      then (ped s ob)\<lparr>need_update := True, ready_to_shade := False, probe_id := 0\<rparr>
      else ped s ob)"
    and "probe_pool (cache_finish_probe_pool mp s) = Some (next_texture s)"
    and "cache_num_cube (cache_finish_probe_pool mp s) = num_cube s"
    and "update_world (cache_finish_probe_pool mp s)"
    and "\<not> world_ready_to_shade (cache_finish_probe_pool mp s)"
    and "num_render_cube (cache_finish_probe_pool mp s) = 0"
  using assms
  by (auto simp: cache_finish_probe_pool_def Let_def DRW_texture_create_def cube_scan_def
      tag_all_fields tag_all_ped)

lemma cache_finish_probe_pool_keep:
  assumes "num_cube s = cache_num_cube s" "probe_pool s \<noteq> None"
  shows "cache_finish_probe_pool mp s = s"
  using assms by (auto simp: cache_finish_probe_pool_def Let_def)

lemma cache_finish_probe_pool_fields:
  "updated_bounce (cache_finish_probe_pool mp s) = updated_bounce s"
  "num_render_grid (cache_finish_probe_pool mp s) = num_render_grid s"
  "irradiance_pool (cache_finish_probe_pool mp s) = irradiance_pool s"
  "irradiance_rt (cache_finish_probe_pool mp s) = irradiance_rt s"
  "probes_grid_ref (cache_finish_probe_pool mp s) = probes_grid_ref s"
  "updated_cells (ped (cache_finish_probe_pool mp s) ob) = updated_cells (ped s ob)"
  "ob \<notin> snd ` set (cube_scan mp s) \<Longrightarrow> ped (cache_finish_probe_pool mp s) ob = ped s ob"
  by (auto simp: cache_finish_probe_pool_def Let_def DRW_texture_create_def cube_scan_def
      tag_all_fields tag_all_ped)

lemma cache_finish_irradiance_keep:
  "irradiance_pool s \<noteq> None \<Longrightarrow> cache_finish_irradiance_pool mp s = s"
  "irradiance_rt s \<noteq> None \<Longrightarrow> cache_finish_irradiance_rt mp s = s"
  by (auto simp: cache_finish_irradiance_pool_def cache_finish_irradiance_rt_def)

lemma cache_finish_irradiance_pool_fields:
  "ped (cache_finish_irradiance_pool mp s) ob =
     (if irradiance_pool s = None \<and> ob \<in> snd ` set (scan_refs mp (probes_grid_ref s) 1)
      then (ped s ob)\<lparr>need_update := True, updated_cells := 0\<rparr> else ped s ob)"
  "probe_pool (cache_finish_irradiance_pool mp s) = probe_pool s"
  "cache_num_cube (cache_finish_irradiance_pool mp s) = cache_num_cube s"
  "update_world (cache_finish_irradiance_pool mp s) = update_world s"
  "world_ready_to_shade (cache_finish_irradiance_pool mp s) = world_ready_to_shade s"
  "num_render_cube (cache_finish_irradiance_pool mp s) = num_render_cube s"
  "num_render_grid (cache_finish_irradiance_pool mp s)
     = (if irradiance_pool s = None then 0 else num_render_grid s)"
  "updated_bounce (cache_finish_irradiance_pool mp s)
     = (if irradiance_pool s = None then 0 else updated_bounce s)"
  "probes_grid_ref (cache_finish_irradiance_pool mp s) = probes_grid_ref s"
  "irradiance_rt (cache_finish_irradiance_pool mp s) = irradiance_rt s"
  by (simp_all add: cache_finish_irradiance_pool_def DRW_texture_create_def reset_grids_fields)

lemma cache_finish_irradiance_rt_fields:
  "ped (cache_finish_irradiance_rt mp s) ob =
     (if irradiance_rt s = None \<and> ob \<in> snd ` set (scan_refs mp (probes_grid_ref s) 1)
      then (ped s ob)\<lparr>need_update := True, updated_cells := 0\<rparr> else ped s ob)"
  "probe_pool (cache_finish_irradiance_rt mp s) = probe_pool s"
  "cache_num_cube (cache_finish_irradiance_rt mp s) = cache_num_cube s"
  "update_world (cache_finish_irradiance_rt mp s) = update_world s"
  "world_ready_to_shade (cache_finish_irradiance_rt mp s) = world_ready_to_shade s"
  "num_render_cube (cache_finish_irradiance_rt mp s) = num_render_cube s"
  "num_render_grid (cache_finish_irradiance_rt mp s)
     = (if irradiance_rt s = None then 0 else num_render_grid s)"
  "updated_bounce (cache_finish_irradiance_rt mp s)
     = (if irradiance_rt s = None then 0 else updated_bounce s)"
  by (simp_all add: cache_finish_irradiance_rt_def DRW_texture_create_def reset_grids_fields)

lemmas cache_finish_fields = EEVEE_lightprobes_cache_finish_def updates_fields
  cache_finish_irradiance_rt_fields cache_finish_irradiance_pool_fields
  cache_finish_probe_pool_fields

lemma cache_finish_ready_to_shade:
  assumes "ob \<notin> snd ` set (cube_scan mp s)"
  shows "ready_to_shade (ped (EEVEE_lightprobes_cache_finish mp mg s) ob) = ready_to_shade (ped s ob)"
    and "probe_id (ped (EEVEE_lightprobes_cache_finish mp mg s) ob) = probe_id (ped s ob)"
    and "num_cell (ped (EEVEE_lightprobes_cache_finish mp mg s) ob) = num_cell (ped s ob)"
  using assms by (simp_all add: cache_finish_fields)

text \<open>
  C5, as amended. When the cube count differs from the cached count, \<^verbatim>\<open>cache_finish\<close>
  allocates a new reflection atlas, stores the count, marks the world dirty and not ready,
  zeroes the rendered-cube count and marks every scanned cube probe as needing an update,
  not ready, with probe id 0. When both irradiance textures exist, the bounce counter, the
  rendered-grid count and every cell counter are unchanged, and the bake state of every
  object outside the cube scan is unchanged. When one of them is missing, the counters of
  the scanned grids, the bounce counter and the rendered-grid count are reset. With an
  atlas present and equal counts, nothing of the above changes. In every case the ready
  flag, the probe id and the cell count of every object outside the cube scan, so of
  every grid, are unchanged.
\<close>

theorem cache_finish_invalidation:
  assumes "s' = EEVEE_lightprobes_cache_finish max_probe max_grid s"
  shows "(num_cube s \<noteq> cache_num_cube s \<longrightarrow>
            probe_pool s' = Some (next_texture s) \<and> cache_num_cube s' = num_cube s
          \<and> update_world s' \<and> \<not> world_ready_to_shade s' \<and> num_render_cube s' = 0
          \<and> (\<forall>x \<in> set (cube_scan max_probe s).
                need_update (ped s' (snd x)) \<and> \<not> ready_to_shade (ped s' (snd x))
                \<and> probe_id (ped s' (snd x)) = 0))
       \<and> (irradiance_pool s \<noteq> None \<and> irradiance_rt s \<noteq> None \<longrightarrow>
            updated_bounce s' = updated_bounce s \<and> num_render_grid s' = num_render_grid s
          \<and> (\<forall>ob. updated_cells (ped s' ob) = updated_cells (ped s ob))
          \<and> (\<forall>ob. ob \<notin> snd ` set (cube_scan max_probe s) \<longrightarrow> ped s' ob = ped s ob))
       \<and> (irradiance_pool s = None \<or> irradiance_rt s = None \<longrightarrow>
            updated_bounce s' = 0 \<and> num_render_grid s' = 0
          \<and> (\<forall>x \<in> set (scan_refs max_probe (probes_grid_ref s) 1).
                need_update (ped s' (snd x)) \<and> updated_cells (ped s' (snd x)) = 0))
       \<and> (num_cube s = cache_num_cube s \<and> probe_pool s \<noteq> None \<longrightarrow>
            probe_pool s' = probe_pool s \<and> cache_num_cube s' = cache_num_cube s
          \<and> update_world s' = update_world s
          \<and> world_ready_to_shade s' = world_ready_to_shade s
          \<and> num_render_cube s' = num_render_cube s
          \<and> (irradiance_pool s \<noteq> None \<and> irradiance_rt s \<noteq> None \<longrightarrow> ped s' = ped s))
       \<and> (\<forall>ob. ob \<notin> snd ` set (cube_scan max_probe s) \<longrightarrow>
              ready_to_shade (ped s' ob) = ready_to_shade (ped s ob)
            \<and> probe_id (ped s' ob) = probe_id (ped s ob)
            \<and> num_cell (ped s' ob) = num_cell (ped s ob))"
proof -
  have c1: "num_cube s \<noteq> cache_num_cube s \<longrightarrow>
            probe_pool s' = Some (next_texture s) \<and> cache_num_cube s' = num_cube s
          \<and> update_world s' \<and> \<not> world_ready_to_shade s' \<and> num_render_cube s' = 0
          \<and> (\<forall>x \<in> set (cube_scan max_probe s).
                need_update (ped s' (snd x)) \<and> \<not> ready_to_shade (ped s' (snd x))
                \<and> probe_id (ped s' (snd x)) = 0)"
  proof
    assume a: "num_cube s \<noteq> cache_num_cube s"
    then have r: "num_cube s \<noteq> cache_num_cube s \<or> probe_pool s = None" by simp
    show "probe_pool s' = Some (next_texture s) \<and> cache_num_cube s' = num_cube s
          \<and> update_world s' \<and> \<not> world_ready_to_shade s' \<and> num_render_cube s' = 0
          \<and> (\<forall>x \<in> set (cube_scan max_probe s).
                need_update (ped s' (snd x)) \<and> \<not> ready_to_shade (ped s' (snd x))
                \<and> probe_id (ped s' (snd x)) = 0)"
      unfolding assms
      by (simp add: cache_finish_fields cache_finish_probe_pool_realloc [OF r])
  qed
  have c2: "irradiance_pool s \<noteq> None \<and> irradiance_rt s \<noteq> None \<longrightarrow>
            updated_bounce s' = updated_bounce s \<and> num_render_grid s' = num_render_grid s
          \<and> (\<forall>ob. updated_cells (ped s' ob) = updated_cells (ped s ob))
          \<and> (\<forall>ob. ob \<notin> snd ` set (cube_scan max_probe s) \<longrightarrow> ped s' ob = ped s ob)"
    unfolding assms by (auto simp: cache_finish_fields)
  have c3: "irradiance_pool s = None \<or> irradiance_rt s = None \<longrightarrow>
            updated_bounce s' = 0 \<and> num_render_grid s' = 0
          \<and> (\<forall>x \<in> set (scan_refs max_probe (probes_grid_ref s) 1).
                need_update (ped s' (snd x)) \<and> updated_cells (ped s' (snd x)) = 0)"
    unfolding assms by (auto simp: cache_finish_fields)
  have c4: "num_cube s = cache_num_cube s \<and> probe_pool s \<noteq> None \<longrightarrow>
            probe_pool s' = probe_pool s \<and> cache_num_cube s' = cache_num_cube s
          \<and> update_world s' = update_world s
          \<and> world_ready_to_shade s' = world_ready_to_shade s
          \<and> num_render_cube s' = num_render_cube s
          \<and> (irradiance_pool s \<noteq> None \<and> irradiance_rt s \<noteq> None \<longrightarrow> ped s' = ped s)"
  proof
    assume a: "num_cube s = cache_num_cube s \<and> probe_pool s \<noteq> None"
    then have k: "cache_finish_probe_pool max_probe s = s"
      by (simp add: cache_finish_probe_pool_keep)
    show "probe_pool s' = probe_pool s \<and> cache_num_cube s' = cache_num_cube s
          \<and> update_world s' = update_world s
          \<and> world_ready_to_shade s' = world_ready_to_shade s
          \<and> num_render_cube s' = num_render_cube s
          \<and> (irradiance_pool s \<noteq> None \<and> irradiance_rt s \<noteq> None \<longrightarrow> ped s' = ped s)"
      unfolding assms
      by (auto simp: EEVEE_lightprobes_cache_finish_def updates_fields k
          cache_finish_irradiance_rt_fields cache_finish_irradiance_pool_fields
          cache_finish_irradiance_keep)
  qed
  have c5: "\<forall>ob. ob \<notin> snd ` set (cube_scan max_probe s) \<longrightarrow>
              ready_to_shade (ped s' ob) = ready_to_shade (ped s ob)
            \<and> probe_id (ped s' ob) = probe_id (ped s ob)
            \<and> num_cell (ped s' ob) = num_cell (ped s ob)"
    unfolding assms by (simp add: cache_finish_ready_to_shade)
  show ?thesis
    by (rule conjI [OF c1 conjI [OF c2 conjI [OF c3 conjI [OF c4 c5]]]])
qed

subsection \<open>The example runs\<close>



text \<open>
  Without the bound on the product of the y and z resolutions an invocation with pending
  work need not return: in the second frame of the scene whose grid 7 has the resolution
  \<open>(1, 65536, 65536)\<close> the cell count has wrapped to 0, the grid needs an update, and the
  division of line 769 traps.
\<close>

lemma wide_grid_refresh_traps:
  "\<not> update_world frame2_wide_grid"
  "bake_pending 128 64 frame2_wide_grid"
  "resolution (grid_data frame2_wide_grid 1) = (1, 65536, 65536)"
  "\<not> grids_divisible 64 frame2_wide_grid"
  "num_cell (ped frame2_wide_grid 7) = 0"
  "EEVEE_lightprobes_refresh 128 64 ctx_idle frame2_wide_grid = Inl Division_by_zero"
  by (simp_all add: frame2_wide_grid_def frame1_wide_grid_def scene_wide_grid_def
      bake_pending_def grids_divisible_def grid_divisible_def grid_scan_def cube_scan_def
      grid_cell_defs refresh_defs run_defs)




text \<open>
  The grid 7 added tagged to a fresh registry is dirty and the bounce counter is 0; added
  untagged after the counter has reached 3, it leaves the counter at 3.
\<close>

theorem cache_add_dirty_witness:
  "\<not> rejected 128 7 (EEVEE_lightprobes_cache_init None (zero_state\<lparr>obs := scene_7_9 True\<rparr>))
   \<and> deg_runtime_data_update
        (obs (EEVEE_lightprobes_cache_init None (zero_state\<lparr>obs := scene_7_9 True\<rparr>)) 7)
   \<and> need_update (ped (EEVEE_lightprobes_cache_add 128 7
        (EEVEE_lightprobes_cache_init None (zero_state\<lparr>obs := scene_7_9 True\<rparr>))) 7)
   \<and> updated_bounce (EEVEE_lightprobes_cache_add 128 7
        (EEVEE_lightprobes_cache_init None (zero_state\<lparr>obs := scene_7_9 True\<rparr>))) = 0
   \<and> \<not> rejected 128 7 (EEVEE_lightprobes_cache_init None (frame2_done\<lparr>obs := scene_7_9 False\<rparr>))
   \<and> updated_bounce (EEVEE_lightprobes_cache_add 128 7
        (EEVEE_lightprobes_cache_init None (frame2_done\<lparr>obs := scene_7_9 False\<rparr>))) = 3"
proof -
  let ?s = "EEVEE_lightprobes_cache_init None (zero_state\<lparr>obs := scene_7_9 True\<rparr>)"
  let ?t = "EEVEE_lightprobes_cache_init None (frame2_done\<lparr>obs := scene_7_9 False\<rparr>)"
  have a: "\<not> rejected 128 7 ?s" "deg_runtime_data_update (obs ?s 7)"
    by (simp_all add: rejected_def EEVEE_lightprobes_cache_init_def zero_state_def
        scene_7_9_def probe_object_def)
  have b: "\<not> rejected 128 7 ?t" "\<not> deg_runtime_data_update (obs ?t 7)"
    "\<not> update_world ?t" "updated_bounce ?t = 3"
    using frame2_done_eval
    by (simp_all add: rejected_def
        frame2_done_def frame2_no_grid_def frame1_cached_def refresh_defs run_defs)
  show ?thesis
    using cache_add_dirty [OF a(1)] cache_add_dirty [OF b(1)] a b by simp
qed

text \<open>
  C6 as stated fails: the atlas allocated in the first frame is never reallocated, the
  cube probe 9 is tagged in the third frame and again in the fourth, and \<^verbatim>\<open>cache_add\<close>
  resets the bounce counter from 3 to 0 both times, not only at the first.
\<close>

theorem bounce_reset_counterexample:
  "EEVEE_lightprobes_refresh 128 64 ctx_idle frame2_no_grid = Inr frame2_done
   \<and> updated_bounce frame2_done = 3 \<and> probe_pool frame2_done = Some 0
   \<and> updated_bounce frame3_tagged = 0 \<and> probe_pool frame3_tagged = Some 0
   \<and> EEVEE_lightprobes_refresh 128 64 ctx_idle frame3_tagged = Inr frame3_tagged_done
   \<and> updated_bounce frame3_tagged_done = 3 \<and> probe_pool frame3_tagged_done = Some 0
   \<and> deg_runtime_data_update (obs frame4_tagged_add 9)
   \<and> updated_bounce frame4_tagged_add = 0 \<and> probe_pool frame4_tagged_add = Some 0"
  using frame2_no_grid_refresh frame2_done_eval frame3_tagged_eval by simp

lemma cube_added_eval:
  "num_cube cube_added = 3"
  "cache_num_cube cube_added = 2"
  "cube_scan 128 cube_added = [(1, 9), (2, 10)]"
  "grid_scan 64 cube_added = [(1, 7)]"
  "irradiance_pool cube_added \<noteq> None"
  "irradiance_rt cube_added \<noteq> None"
  "ready_to_shade (ped cube_added 9)"
  "probe_id (ped cube_added 9) = 1"
  "\<not> need_update (ped cube_added 9)"
  "need_update (ped cube_added 7)"
  "updated_bounce cube_added = 3"
  by (simp_all add: cube_added_def frame2_done_def frame2_no_grid_def frame1_cached_def
      cube_scan_def grid_scan_def wrap32_def refresh_defs run_defs)

text \<open>
  The frame in which a second cube probe appears: the count 3 differs from the cached 2,
  both irradiance textures exist, and the scan of the cube probes finds the probes 9 and
  10. The atlas is reallocated; the cube probe 9, which was ready with the probe id 1, needs
  an update, is not ready and has the probe id 0; the bounce counter stays at 3 and the
  bake state of the grid 7 is unchanged.
\<close>

theorem cache_finish_invalidation_witness:
  "num_cube cube_added \<noteq> cache_num_cube cube_added
   \<and> irradiance_pool cube_added \<noteq> None \<and> irradiance_rt cube_added \<noteq> None
   \<and> cube_scan 128 cube_added = [(1, 9), (2, 10)]
   \<and> ready_to_shade (ped cube_added 9) \<and> probe_id (ped cube_added 9) = 1
   \<and> \<not> need_update (ped cube_added 9)
   \<and> update_world (EEVEE_lightprobes_cache_finish 128 64 cube_added)
   \<and> num_render_cube (EEVEE_lightprobes_cache_finish 128 64 cube_added) = 0
   \<and> cache_num_cube (EEVEE_lightprobes_cache_finish 128 64 cube_added) = 3
   \<and> need_update (ped (EEVEE_lightprobes_cache_finish 128 64 cube_added) 9)
   \<and> \<not> ready_to_shade (ped (EEVEE_lightprobes_cache_finish 128 64 cube_added) 9)
   \<and> probe_id (ped (EEVEE_lightprobes_cache_finish 128 64 cube_added) 9) = 0
   \<and> need_update (ped (EEVEE_lightprobes_cache_finish 128 64 cube_added) 10)
   \<and> updated_bounce (EEVEE_lightprobes_cache_finish 128 64 cube_added) = 3
   \<and> 7 \<notin> snd ` set (cube_scan 128 cube_added)
   \<and> ped (EEVEE_lightprobes_cache_finish 128 64 cube_added) 7 = ped cube_added 7
   \<and> ready_to_shade (ped (EEVEE_lightprobes_cache_finish 128 64 cube_added) 7)
        = ready_to_shade (ped cube_added 7)"
proof -
  have n: "7 \<notin> snd ` set (cube_scan 128 cube_added)"
    by (simp add: cube_added_eval)
  show ?thesis
    using cache_finish_invalidation [where s = cube_added and max_probe = 128
        and max_grid = 64, OF refl] cube_added_eval n
    by simp
qed

text \<open>
  C5 as stated fails in that frame: the atlas is reallocated (texture 3 replaces texture
  0), and the registered grid 7 keeps its cell counter 3.
\<close>

theorem grid_progress_kept_counterexample:
  "refresh_frames 3 128 64 ctx_idle frame2_cached = Inr frame2_baked3
   \<and> num_cube cube_hidden_added = 1 \<and> cache_num_cube cube_hidden_added = 2
   \<and> probes_grid_ref cube_hidden_added 1 = Some 7
   \<and> probe_pool cube_hidden_added = Some 0
   \<and> probe_pool (EEVEE_lightprobes_cache_finish 128 64 cube_hidden_added) = Some 3
   \<and> updated_cells (ped (EEVEE_lightprobes_cache_finish 128 64 cube_hidden_added) 7) = 3"
  using frame2_baked3_eval cube_hidden_eval by simp

end
